theory Spec2Isabelle
  imports Complex_Main "HOL-Library.Monad_Syntax"
begin

section \<open>The packed memory array of \<^verbatim>\<open>src/pma/btree/btreepmacc7.cpp\<close>\<close>

text \<open>
  Conventions of the embedding.
  \<^item> Keys and values (\<^verbatim>\<open>int64_t\<close>) are \<^typ>\<open>int\<close>; they are only compared and
    copied. Sizes, offsets and counters (\<^verbatim>\<open>size_t\<close>, \<^verbatim>\<open>uint16_t\<close>,
    \<^verbatim>\<open>uint32_t\<close>) are \<^typ>\<open>nat\<close>; cursors that the source declares signed
    (\<^verbatim>\<open>ssize_t\<close>, \<^verbatim>\<open>int64_t\<close>, \<^verbatim>\<open>int\<close>) and that may drop below zero are
    \<^typ>\<open>int\<close>.
  \<^item> The arrays \<^verbatim>\<open>m_keys\<close>, \<^verbatim>\<open>m_values\<close> and \<^verbatim>\<open>m_segment_sizes\<close> are lists;
    a pointer into an array is the list together with an offset.
  \<^item> Densities and thresholds (\<^verbatim>\<open>double\<close>) are \<^typ>\<open>rat\<close>. A density is a
    count divided by \<^verbatim>\<open>window_length * segment_capacity\<close>, a power of two, and the
    minimum segment size is a threshold multiplied by the segment capacity, again
    a power of two: both operations are exact on doubles.
  \<^item> Memory allocation always succeeds.
  \<^item> An operation that has a loop returns an \<open>option\<close>: \<open>None\<close> stands for a call
    that does not return, because a loop never ends or because of the division by
    zero in \<^verbatim>\<open>alloc_workspace\<close>. The constructor tells the two failures that it
    can meet apart.
\<close>

subsection \<open>Errors\<close>

text \<open>\<open>invalid_argument\<close> is the exception \<^verbatim>\<open>std::invalid_argument\<close> with its
  message; \<open>division_by_zero\<close> is the arithmetic fault of an integer division by
  zero, which ends the process.\<close>

datatype error = invalid_argument string | division_by_zero

subsection \<open>Helpers that the sources only declare\<close>

text \<open>Modelled from the spec: \<^verbatim>\<open>hyperceil\<close> (miscellaneous.hpp is not among the
  sources). Glossary: ``Hyperceil(n): the smallest power of two \<open>\<ge> n\<close>''.\<close>

function hyperceil :: "nat \<Rightarrow> nat" where
  "hyperceil n = (if n \<le> 1 then 1 else 2 * hyperceil ((n + 1) div 2))"
  by pat_completeness auto
termination
  by (relation "measure (\<lambda>n. n)") auto

declare hyperceil.simps [simp del]

text \<open>Modelled from the spec: the density bounds of the calibrator tree
  (\<^verbatim>\<open>m_density_bounds\<close>, class not among the sources). Section 4.4: a pure function
  from the height of a node and the height of the tree to the pair \<open>(\<rho>, \<tau>)\<close>;
  the two further accessors give \<open>\<tau>\<close> at the leaves and at the root.\<close>

record DensityBounds =
  thresholds_at :: "nat \<Rightarrow> nat \<Rightarrow> rat \<times> rat"  \<comment> \<open>\<^verbatim>\<open>thresholds(tree_height, node_height)\<close>\<close>
  get_upper_threshold_leaves :: rat
  get_upper_threshold_root :: rat

text \<open>Modelled from the spec: the rewiring facility (\<^verbatim>\<open>BufferedRewiredMemory\<close>,
  class not among the sources), Section 4.1. Only the size of an extent in bytes and
  the number of scratch buffers handed out and not yet released are kept;
  \<^verbatim>\<open>acquire_buffer\<close> hands out one more buffer, \<^verbatim>\<open>swap_and_release\<close> takes one
  back.\<close>

record BufferedRewiredMemory =
  get_extent_size :: nat
  get_used_buffers :: nat

definition acquire_buffer :: "BufferedRewiredMemory \<Rightarrow> BufferedRewiredMemory" where
  "acquire_buffer m = m\<lparr>get_used_buffers := get_used_buffers m + 1\<rparr>"

definition swap_and_release :: "BufferedRewiredMemory \<Rightarrow> BufferedRewiredMemory" where
  "swap_and_release m = m\<lparr>get_used_buffers := get_used_buffers m - 1\<rparr>"

subsection \<open>The state\<close>

text \<open>
  One record for \<^verbatim>\<open>BTreePMACC7\<close>, with the fields of its member \<^verbatim>\<open>m_storage\<close>
  (struct \<^verbatim>\<open>PMA\<close>) inlined under their own names. \<^verbatim>\<open>m_index\<close> is the list of
  separator keys, one per segment. \<^verbatim>\<open>m_memory_keys\<close> and \<^verbatim>\<open>m_memory_values\<close>
  are \<open>None\<close> for the null pointer. \<^verbatim>\<open>m_profiles\<close> is the list that
  \<^verbatim>\<open>Instrumentation::Profiler::~Profiler\<close> appends to at the end of every
  \<^verbatim>\<open>rebalance\<close>; of each entry only \<^verbatim>\<open>m_on_insert\<close> is kept. \<^verbatim>\<open>page_size\<close>
  is the value of \<^verbatim>\<open>get_memory_page_size()\<close>.
\<close>

record BTreePMACC7 =
  m_index :: "int list"
  m_keys :: "int list"
  m_values :: "int list"
  m_segment_sizes :: "nat list"
  m_segment_capacity :: nat
  m_height :: nat
  m_cardinality :: nat
  m_capacity :: nat
  m_number_segments :: nat
  m_pages_per_extent :: nat
  m_memory_keys :: "BufferedRewiredMemory option"
  m_memory_values :: "BufferedRewiredMemory option"
  m_density_bounds :: DensityBounds
  m_profiles :: "bool list"
  page_size :: nat

subsection \<open>Initialization\<close>

text \<open>The product of two \<^verbatim>\<open>size_t\<close>, which wraps around at \<open>2\<^sup>6\<^sup>4\<close>.\<close>

definition size_t_times :: "nat \<Rightarrow> nat \<Rightarrow> nat" where
  "size_t_times a b = nat ((int a * int b) mod 2 ^ 64)"

text \<open>\<^verbatim>\<open>PMA::alloc_workspace\<close>: fresh arrays for \<open>num_segments\<close> segments. The size
  of an extent and the space for the elements are products of \<^verbatim>\<open>size_t\<close>. When
  the elements fill at least one extent the arrays come from the rewiring
  facility, \<open>elts_num_extents\<close> extents each for the keys and for the values, and
  the quotient that gives this number divides by zero when the size of an extent
  has wrapped around to zero: the result is \<open>None\<close>. Otherwise the arrays are
  \<open>elts_space_required_bytes\<close> long. The cells of fresh memory are written as \<open>0\<close>.
  Of the memory for the segment sizes the model keeps the \<^verbatim>\<open>max(2, num_segments)\<close>
  cells that were asked for; the second one is set to zero.\<close>

definition alloc_workspace ::
  "nat \<Rightarrow> nat \<Rightarrow> nat \<Rightarrow> nat \<Rightarrow>
   (int list \<times> int list \<times> nat list \<times> BufferedRewiredMemory option \<times> BufferedRewiredMemory option) option" where
  "alloc_workspace segment_capacity pages_per_extent pgsz num_segments =
     (let extent_size = size_t_times pages_per_extent pgsz;
          elts_space_required_bytes = size_t_times (size_t_times num_segments segment_capacity) 8;
          use_rewired_memory = (elts_space_required_bytes \<ge> extent_size);
          sizes = (replicate (max 2 num_segments) (0::nat))[1 := 0]
      in if use_rewired_memory then
           (if extent_size = 0 then None
            else
              (let elts_num_extents = elts_space_required_bytes div extent_size;
                   cells = elts_num_extents * extent_size div 8;
                   mem = \<lparr>get_extent_size = extent_size, get_used_buffers = 0\<rparr>
               in Some (replicate cells (0::int), replicate cells (0::int), sizes, Some mem, Some mem)))
         else
           (let cells = elts_space_required_bytes div 8
            in Some (replicate cells (0::int), replicate cells (0::int), sizes, None, None)))"

text \<open>The constructor \<^verbatim>\<open>BTreePMACC7(btree_block_size, pma_segment_size,
  pages_per_extent)\<close>, that is \<^verbatim>\<open>PMA::PMA\<close>. The density bounds and the page size
  of the system are passed in.\<close>

definition PMA_init :: "DensityBounds \<Rightarrow> nat \<Rightarrow> nat \<Rightarrow> nat \<Rightarrow> error + BTreePMACC7" where
  "PMA_init db pgsz segment_size pages_per_extent =
     (let segment_capacity = hyperceil segment_size in
      if hyperceil segment_size > 65535 then
        Inl (invalid_argument ''segment size too big, maximum is 65535'')
      else if segment_capacity < 32 then
        Inl (invalid_argument ''segment size too small, minimum is 32'')
      else if hyperceil pages_per_extent \<noteq> pages_per_extent then
        Inl (invalid_argument ''pages per extent must be a value from a power of 2'')
      else if pgsz mod (segment_capacity * 8) \<noteq> 0 then
        Inl (invalid_argument ''segment capacity must be a divisor of the virtual page size'')
      else
        (case alloc_workspace segment_capacity pages_per_extent pgsz 1 of
           None \<Rightarrow> Inl division_by_zero
         | Some (keys, values, sizes, mk, mv) \<Rightarrow>
             Inr \<lparr> m_index = [0],
                   m_keys = keys, m_values = values, m_segment_sizes = sizes,
                   m_segment_capacity = segment_capacity,
                   m_height = 1, m_cardinality = 0,
                   m_capacity = segment_capacity, m_number_segments = 1,
                   m_pages_per_extent = pages_per_extent,
                   m_memory_keys = mk, m_memory_values = mv,
                   m_density_bounds = db, m_profiles = [], page_size = pgsz \<rparr>))"

definition empty_pma :: "BTreePMACC7 \<Rightarrow> bool" where
  "empty_pma s = (m_cardinality s = 0)"

text \<open>\<^verbatim>\<open>BTreePMACC7::thresholds(height)\<close>.\<close>

definition thresholds :: "BTreePMACC7 \<Rightarrow> nat \<Rightarrow> rat \<times> rat" where
  "thresholds s node_height = thresholds_at (m_density_bounds s) (m_height s) node_height"

subsection \<open>Copying\<close>

text \<open>The difference of two \<^verbatim>\<open>size_t\<close>, which wraps around below zero.\<close>

definition size_t_minus :: "nat \<Rightarrow> nat \<Rightarrow> nat" where
  "size_t_minus a b = nat ((int a - int b) mod 2 ^ 64)"

text \<open>\<^verbatim>\<open>memcpy(dst + d, src + s, n * sizeof(int64_t))\<close>: the source cells are read
  before the destination is written.\<close>

definition memcpy :: "int list \<Rightarrow> nat \<Rightarrow> int list \<Rightarrow> nat \<Rightarrow> nat \<Rightarrow> int list" where
  "memcpy dst d src s n = take d dst @ take n (drop s src) @ drop (d + n) dst"

subsection \<open>The separator index\<close>

text \<open>Modelled from the spec: the static index \<^verbatim>\<open>m_index\<close> (class
  \<^verbatim>\<open>StaticIndex\<close>, not among the sources), Section 4.3. \<^verbatim>\<open>find(key)\<close>: ``the
  unique segment whose separator \<open>\<le>\<close> key and (next separator \<open>>\<close> key, or this is
  the last segment). Returns 0 for keys below the minimum''; the first such
  segment is taken. \<^verbatim>\<open>find_first(key)\<close> and \<^verbatim>\<open>find_last(key)\<close>: ``leftmost /
  rightmost candidate segment intersecting \<open>[key, \<infinity>)\<close> / \<open>(-\<infinity>, key]\<close>'', here
  the first segment whose successor's separator is not below the key (or that is
  the last one), and the last segment whose separator is not above the key (or
  0). \<^verbatim>\<open>rebuild(S)\<close> resets to \<open>S\<close> segments, written as zeros.\<close>

definition set_separator_key :: "int list \<Rightarrow> nat \<Rightarrow> int \<Rightarrow> int list" where
  "set_separator_key ix segment_id key = ix[segment_id := key]"

definition rebuild :: "nat \<Rightarrow> int list" where
  "rebuild num_segments = replicate num_segments 0"

definition index_find :: "int list \<Rightarrow> int \<Rightarrow> nat" where
  "index_find ix key =
     (case List.find (\<lambda>i. ix ! i \<le> key \<and> (Suc i = length ix \<or> key < ix ! Suc i)) [0..<length ix] of
        Some i \<Rightarrow> i | None \<Rightarrow> 0)"

definition index_find_first :: "int list \<Rightarrow> int \<Rightarrow> nat" where
  "index_find_first ix key =
     (case List.find (\<lambda>i. Suc i = length ix \<or> key \<le> ix ! Suc i) [0..<length ix] of
        Some i \<Rightarrow> i | None \<Rightarrow> 0)"

definition index_find_last :: "int list \<Rightarrow> int \<Rightarrow> nat" where
  "index_find_last ix key =
     (case List.find (\<lambda>i. ix ! i \<le> key) (rev [0..<length ix]) of
        Some i \<Rightarrow> i | None \<Rightarrow> 0)"

subsection \<open>Insert\<close>

text \<open>\<^verbatim>\<open>BTreePMACC7::insert_empty\<close>.\<close>

definition insert_empty :: "BTreePMACC7 \<Rightarrow> int \<Rightarrow> int \<Rightarrow> BTreePMACC7" where
  "insert_empty s key value =
     (let pos = m_segment_capacity s - 1 in
      s\<lparr> m_index := set_separator_key (m_index s) 0 key,
         m_segment_sizes := (m_segment_sizes s)[0 := 1],
         m_keys := (m_keys s)[pos := key],
         m_values := (m_values s)[pos := value],
         m_cardinality := 1 \<rparr>)"

text \<open>\<^verbatim>\<open>BTreePMACC7::storage_insert_unsafe\<close>. The four loops of the source, over the
  cells of the segment that starts at offset \<open>base\<close>. It is called on segments that
  are not full.\<close>

function insert_even_keys :: "int list \<Rightarrow> nat \<Rightarrow> nat \<Rightarrow> nat \<Rightarrow> int \<Rightarrow> int list \<times> nat" where
  "insert_even_keys keys base i stop key =
     (if i < stop \<and> keys ! (base + i + 1) < key
      then insert_even_keys (keys[base + i := keys ! (base + i + 1)]) base (i + 1) stop key
      else (keys, i))"
  by pat_completeness auto
termination
  by (relation "measure (\<lambda>(keys, base, i, stop, key). stop - i)") auto

declare insert_even_keys.simps [simp del]

function insert_even_values :: "int list \<Rightarrow> nat \<Rightarrow> nat \<Rightarrow> nat \<Rightarrow> int list" where
  "insert_even_values values base j i =
     (if j < i
      then insert_even_values (values[base + j := values ! (base + j + 1)]) base (j + 1) i
      else values)"
  by pat_completeness auto
termination
  by (relation "measure (\<lambda>(values, base, j, i). i - j)") auto

declare insert_even_values.simps [simp del]

function insert_odd_keys :: "int list \<Rightarrow> nat \<Rightarrow> nat \<Rightarrow> int \<Rightarrow> int list \<times> nat" where
  "insert_odd_keys keys base i key =
     (if i > 0 \<and> keys ! (base + i - 1) > key
      then insert_odd_keys (keys[base + i := keys ! (base + i - 1)]) base (i - 1) key
      else (keys, i))"
  by pat_completeness auto
termination
  by (relation "measure (\<lambda>(keys, base, i, key). i)") auto

declare insert_odd_keys.simps [simp del]

function insert_odd_values :: "int list \<Rightarrow> nat \<Rightarrow> nat \<Rightarrow> nat \<Rightarrow> int list" where
  "insert_odd_values values base j i =
     (if j > i
      then insert_odd_values (values[base + j := values ! (base + j - 1)]) base (j - 1) i
      else values)"
  by pat_completeness auto
termination
  by (relation "measure (\<lambda>(values, base, j, i). j)") auto

declare insert_odd_values.simps [simp del]

definition storage_insert_unsafe :: "BTreePMACC7 \<Rightarrow> nat \<Rightarrow> int \<Rightarrow> int \<Rightarrow> BTreePMACC7 \<times> bool" where
  "storage_insert_unsafe s segment_id key value =
     (let base = segment_id * m_segment_capacity s;
          sz = m_segment_sizes s ! segment_id
      in if segment_id mod 2 = 0 then
           (let stop = m_segment_capacity s - 1;
                start = m_segment_capacity s - sz - 1;
                (keys, i) = insert_even_keys (m_keys s) base start stop key;
                keys = keys[base + i := key];
                values = insert_even_values (m_values s) base start i;
                values = values[base + i := value]
            in (s\<lparr> m_keys := keys, m_values := values,
                   m_segment_sizes := (m_segment_sizes s)[segment_id := sz + 1],
                   m_cardinality := m_cardinality s + 1 \<rparr>, i = start))
         else
           (let (keys, i) = insert_odd_keys (m_keys s) base sz key;
                keys = keys[base + i := key];
                values = insert_odd_values (m_values s) base sz i;
                values = values[base + i := value]
            in (s\<lparr> m_keys := keys, m_values := values,
                   m_segment_sizes := (m_segment_sizes s)[segment_id := sz + 1],
                   m_cardinality := m_cardinality s + 1 \<rparr>, i = 0)))"

text \<open>\<^verbatim>\<open>BTreePMACC7::spread_insert_unsafe\<close>: copy \<open>num_elements\<close> cells from
  \<open>keys_from + src\<close> to \<open>keys_to + dst\<close>, with the new pair spliced in at its sorted
  position. The source increments \<^verbatim>\<open>m_cardinality\<close> as well; the callers below do
  that.\<close>

function spread_insert_position :: "int list \<Rightarrow> nat \<Rightarrow> nat \<Rightarrow> int \<Rightarrow> nat \<Rightarrow> nat" where
  "spread_insert_position keys_from src num_elements new_key i =
     (if i < num_elements \<and> keys_from ! (src + i) < new_key
      then spread_insert_position keys_from src num_elements new_key (i + 1)
      else i)"
  by pat_completeness auto
termination
  by (relation "measure (\<lambda>(keys_from, src, num_elements, new_key, i). num_elements - i)") auto

declare spread_insert_position.simps [simp del]

definition spread_insert_unsafe ::
  "int list \<Rightarrow> int list \<Rightarrow> nat \<Rightarrow> int list \<Rightarrow> int list \<Rightarrow> nat \<Rightarrow> nat \<Rightarrow> int \<Rightarrow> int \<Rightarrow>
   int list \<times> int list" where
  "spread_insert_unsafe keys_from values_from src keys_to values_to dst num_elements new_key new_value =
     (let i = spread_insert_position keys_from src num_elements new_key 0;
          keys_to = memcpy keys_to dst keys_from src i;
          values_to = memcpy values_to dst values_from src i;
          keys_to = keys_to[dst + i := new_key];
          values_to = values_to[dst + i := new_value];
          keys_to = memcpy keys_to (dst + i + 1) keys_from (src + i) (num_elements - i);
          values_to = memcpy values_to (dst + i + 1) values_from (src + i) (num_elements - i)
      in (keys_to, values_to))"

text \<open>\<^verbatim>\<open>BTreePMACC7::get_minimum\<close>.\<close>

definition get_minimum :: "BTreePMACC7 \<Rightarrow> nat \<Rightarrow> int" where
  "get_minimum s segment_id =
     (if segment_id mod 2 = 0
      then m_keys s ! ((segment_id + 1) * m_segment_capacity s - m_segment_sizes s ! segment_id)
      else m_keys s ! (segment_id * m_segment_capacity s))"

subsection \<open>Spread with rewiring\<close>

text \<open>
  The class \<^verbatim>\<open>SpreadWithRewiring\<close>. The field \<^verbatim>\<open>m_cardinality\<close> of the class is
  \<open>rw_cardinality\<close> here. An entry of \<^verbatim>\<open>m_extents_to_rewire\<close> carries the
  contents of its two scratch buffers instead of their addresses.

  A loop of the source that never ends is the result \<open>None\<close>.
\<close>

record SpreadWithRewiring =
  m_instance :: BTreePMACC7
  m_window_start :: nat
  m_window_length :: nat
  rw_cardinality :: nat
  m_segments_per_extent :: nat
  m_insert :: bool
  m_insert_key :: int
  m_insert_value :: int
  m_position :: int
  m_extents_to_rewire :: "(int \<times> int list \<times> int list) list"

definition get_segment_capacity :: "SpreadWithRewiring \<Rightarrow> nat" where
  "get_segment_capacity rw = m_segment_capacity (m_instance rw)"

definition position2segment :: "SpreadWithRewiring \<Rightarrow> int \<Rightarrow> int" where
  "position2segment rw position = position div int (get_segment_capacity rw)"

definition position2extent :: "SpreadWithRewiring \<Rightarrow> int \<Rightarrow> int" where
  "position2extent rw position =
     (let segment = position2segment rw (position - int (m_window_start rw * get_segment_capacity rw))
      in segment div int (m_segments_per_extent rw))"

definition get_current_extent :: "SpreadWithRewiring \<Rightarrow> int" where
  "get_current_extent rw = position2extent rw (m_position rw - 1)"

definition get_offset :: "SpreadWithRewiring \<Rightarrow> int \<Rightarrow> nat" where
  "get_offset rw relative_extent_id =
     nat (int (m_window_start rw * get_segment_capacity rw)
          + relative_extent_id * int (m_segments_per_extent rw) * int (get_segment_capacity rw))"

text \<open>\<^verbatim>\<open>acquire_free_space\<close>: one scratch extent for the keys and one for the values.\<close>

definition acquire_free_space :: "SpreadWithRewiring \<Rightarrow> SpreadWithRewiring \<times> int list \<times> int list" where
  "acquire_free_space rw =
     (let inst = m_instance rw;
          n = m_segments_per_extent rw * get_segment_capacity rw;
          inst = inst\<lparr> m_memory_keys := map_option acquire_buffer (m_memory_keys inst),
                       m_memory_values := map_option acquire_buffer (m_memory_values inst) \<rparr>
      in (rw\<lparr>m_instance := inst\<rparr>, replicate n 0, replicate n 0))"

text \<open>\<^verbatim>\<open>rewire_keys\<close> and \<^verbatim>\<open>rewire_values\<close> for one entry of the queue: the
  extent of the array now shows what the scratch buffer held, and the buffer is
  released.\<close>

definition rewire :: "SpreadWithRewiring \<Rightarrow> int \<Rightarrow> int list \<Rightarrow> int list \<Rightarrow> SpreadWithRewiring" where
  "rewire rw extent_id keys_src values_src =
     (let inst = m_instance rw;
          n = m_segments_per_extent rw * get_segment_capacity rw;
          inst = inst\<lparr> m_keys := memcpy (m_keys inst) (get_offset rw extent_id) keys_src 0 n,
                       m_values := memcpy (m_values inst) (get_offset rw extent_id) values_src 0 n,
                       m_memory_keys := map_option swap_and_release (m_memory_keys inst),
                       m_memory_values := map_option swap_and_release (m_memory_values inst) \<rparr>
      in rw\<lparr>m_instance := inst\<rparr>)"

fun reclaim_queue :: "SpreadWithRewiring \<Rightarrow> int \<Rightarrow> (int \<times> int list \<times> int list) list \<Rightarrow> SpreadWithRewiring" where
  "reclaim_queue rw current_extent_id [] = rw\<lparr>m_extents_to_rewire := []\<rparr>"
| "reclaim_queue rw current_extent_id ((extent_id, keys_src, values_src) # rest) =
     (if extent_id > current_extent_id
      then reclaim_queue (rewire rw extent_id keys_src values_src) current_extent_id rest
      else rw\<lparr>m_extents_to_rewire := (extent_id, keys_src, values_src) # rest\<rparr>)"

definition reclaim_past_extents :: "SpreadWithRewiring \<Rightarrow> SpreadWithRewiring" where
  "reclaim_past_extents rw = reclaim_queue rw (get_current_extent rw) (m_extents_to_rewire rw)"

text \<open>\<^verbatim>\<open>spread_elements\<close>. The destination is either the array itself, at the offset
  of the extent, or a scratch buffer (\<open>to_buffer\<close>); the input is always read from
  the array. \<open>spread_elements_copy\<close> is the inner \<^verbatim>\<open>while(output_run_sz > 0)\<close>,
  \<open>spread_elements_runs\<close> the \<^verbatim>\<open>for\<close> over the pairs of output segments. Once the
  input has moved below the window with nothing left to read, the inner loop
  cannot make progress any more.\<close>

function spread_elements_copy ::
  "nat \<Rightarrow> nat list \<Rightarrow> nat \<Rightarrow> bool \<Rightarrow> nat \<Rightarrow>
   int list \<times> int list \<times> int list \<times> int list \<times> int \<times> nat \<times> nat \<times> nat \<Rightarrow>
   (int list \<times> int list \<times> int list \<times> int list \<times> int \<times> nat \<times> nat) option" where
  "spread_elements_copy B sizes window_start to_buffer out
       (keys, values, buffer_keys, buffer_values,
        input_segment_id, input_displacement, input_run_sz, output_run_sz) =
     (if output_run_sz > 0 then
        (if input_run_sz = 0 \<and> input_segment_id < int window_start then None
         else
           (let elements_to_copy = min output_run_sz input_run_sz;
                input_copy_offset = input_run_sz - elements_to_copy;
                output_copy_offset = output_run_sz - elements_to_copy;
                src = input_displacement + input_copy_offset;
                dst = out + output_copy_offset;
                keys' = (if to_buffer then keys else memcpy keys dst keys src elements_to_copy);
                values' = (if to_buffer then values else memcpy values dst values src elements_to_copy);
                buffer_keys' = (if to_buffer then memcpy buffer_keys dst keys src elements_to_copy else buffer_keys);
                buffer_values' = (if to_buffer then memcpy buffer_values dst values src elements_to_copy else buffer_values);
                input_run_sz' = input_run_sz - elements_to_copy;
                output_run_sz' = output_run_sz - elements_to_copy
            in if input_run_sz' = 0 then
                 (let input_segment_id' = input_segment_id - 2 in
                  if input_segment_id' \<ge> int window_start then
                    spread_elements_copy B sizes window_start to_buffer out
                      (keys', values', buffer_keys', buffer_values', input_segment_id',
                       nat input_segment_id' * B + B - sizes ! nat input_segment_id',
                       sizes ! nat input_segment_id' + sizes ! (nat input_segment_id' + 1),
                       output_run_sz')
                  else
                    spread_elements_copy B sizes window_start to_buffer out
                      (keys', values', buffer_keys', buffer_values', input_segment_id',
                       window_start * B, 0, output_run_sz'))
               else
                 spread_elements_copy B sizes window_start to_buffer out
                   (keys', values', buffer_keys', buffer_values', input_segment_id,
                    input_displacement, input_run_sz', output_run_sz')))
      else Some (keys, values, buffer_keys, buffer_values,
                 input_segment_id, input_displacement, input_run_sz))"
  by pat_completeness auto
termination
  by (relation "measures
        [\<lambda>(B, sizes, window_start, to_buffer, out, keys, values, bk, bv, isid, idisp, irun, orun).
            nat (isid - int window_start + 3) + (if irun > 0 then 1 else 0),
         \<lambda>(B, sizes, window_start, to_buffer, out, keys, values, bk, bv, isid, idisp, irun, orun).
            orun]")
     (auto simp: min_def split: if_splits)

declare spread_elements_copy.simps [simp del]

function spread_elements_runs ::
  "nat \<Rightarrow> nat list \<Rightarrow> nat \<Rightarrow> bool \<Rightarrow> nat \<Rightarrow> nat \<Rightarrow> nat \<Rightarrow> int \<Rightarrow>
   int list \<times> int list \<times> int list \<times> int list \<times> int \<times> nat \<times> nat \<Rightarrow>
   (int list \<times> int list \<times> int list \<times> int list \<times> int \<times> nat \<times> nat) option" where
  "spread_elements_runs B sizes window_start to_buffer destination elements_per_segment odd_segments
       output_segment_id st =
     (if output_segment_id \<ge> 0 then
        (case st of (keys, values, buffer_keys, buffer_values, input_segment_id, input_displacement, input_run_sz) \<Rightarrow>
           (let output_run_sz_lhs = elements_per_segment + (if output_segment_id < int odd_segments then 1 else 0);
                output_run_sz_rhs = elements_per_segment + (if output_segment_id + 1 < int odd_segments then 1 else 0);
                output_run_sz = output_run_sz_lhs + output_run_sz_rhs;
                output_displacement = nat output_segment_id * B + (B - output_run_sz_lhs)
            in case spread_elements_copy B sizes window_start to_buffer (destination + output_displacement)
                      (keys, values, buffer_keys, buffer_values,
                       input_segment_id, input_displacement, input_run_sz, output_run_sz) of
                 None \<Rightarrow> None
               | Some st' \<Rightarrow>
                   spread_elements_runs B sizes window_start to_buffer destination elements_per_segment
                     odd_segments (output_segment_id - 2) st'))
      else Some st)"
  by pat_completeness auto
termination
  by (relation "measure (\<lambda>(B, sizes, window_start, to_buffer, destination, eps, odd, osid, st). nat (osid + 2))")
     auto

declare spread_elements_runs.simps [simp del]

text \<open>The first input segment of \<^verbatim>\<open>spread_elements\<close>,
  \<^verbatim>\<open>((static_cast<int64_t>(m_position) -1) / (2* segment_capacity)) *2\<close>: the
  division is one of unsigned 64-bit numbers.\<close>

definition initial_input_segment :: "nat \<Rightarrow> int \<Rightarrow> int" where
  "initial_input_segment B position =
     (((position - 1) mod 2 ^ 64) div (2 * int B)) * 2"

definition spread_elements ::
  "SpreadWithRewiring \<Rightarrow> bool \<Rightarrow> int list \<Rightarrow> int list \<Rightarrow> int \<Rightarrow> nat \<Rightarrow>
   (SpreadWithRewiring \<times> int list \<times> int list) option" where
  "spread_elements rw to_buffer buffer_keys buffer_values extent_id num_elements =
     (let inst = m_instance rw;
          B = get_segment_capacity rw;
          segment_sizes = m_segment_sizes inst;
          elements_per_segment = num_elements div m_segments_per_extent rw;
          odd_segments = num_elements mod m_segments_per_extent rw;
          input_segment_id = initial_input_segment B (m_position rw);
          input_initial_displacement =
            nat input_segment_id * B + B - segment_sizes ! nat input_segment_id;
          input_run_sz = nat (m_position rw - int input_initial_displacement);
          destination = (if to_buffer then 0 else get_offset rw extent_id)
      in case spread_elements_runs B segment_sizes (m_window_start rw) to_buffer destination
                elements_per_segment odd_segments (int (m_segments_per_extent rw) - 2)
                (m_keys inst, m_values inst, buffer_keys, buffer_values,
                 input_segment_id, input_initial_displacement, input_run_sz) of
           None \<Rightarrow> None
         | Some (keys, values, buffer_keys', buffer_values', isid, input_displacement, input_run_sz') \<Rightarrow>
             Some (rw\<lparr> m_instance := inst\<lparr>m_keys := keys, m_values := values\<rparr>,
                       m_position := int input_displacement + int input_run_sz' \<rparr>,
                   buffer_keys', buffer_values'))"

definition spread_extent :: "SpreadWithRewiring \<Rightarrow> int \<Rightarrow> nat \<Rightarrow> SpreadWithRewiring option" where
  "spread_extent rw extent_id num_elements =
     (let use_rewiring = (get_current_extent rw \<ge> extent_id) in
      if \<not> use_rewiring then
        (case spread_elements rw False [] [] extent_id num_elements of
           None \<Rightarrow> None
         | Some (rw', _, _) \<Rightarrow> Some (reclaim_past_extents rw'))
      else
        (case acquire_free_space rw of (rw1, buffer_keys, buffer_values) \<Rightarrow>
           (case spread_elements rw1 True buffer_keys buffer_values extent_id num_elements of
              None \<Rightarrow> None
            | Some (rw2, buffer_keys', buffer_values') \<Rightarrow>
                Some (reclaim_past_extents
                        (rw2\<lparr>m_extents_to_rewire :=
                               m_extents_to_rewire rw2 @ [(extent_id, buffer_keys', buffer_values')]\<rparr>)))))"

function spread_window_loop :: "SpreadWithRewiring \<Rightarrow> nat \<Rightarrow> nat \<Rightarrow> int \<Rightarrow> SpreadWithRewiring option" where
  "spread_window_loop rw elements_per_extent odd_extents i =
     (if i \<ge> 0 then
        (case spread_extent rw i (elements_per_extent + (if i < int odd_extents then 1 else 0)) of
           None \<Rightarrow> None
         | Some rw' \<Rightarrow> spread_window_loop rw' elements_per_extent odd_extents (i - 1))
      else Some rw)"
  by pat_completeness auto
termination
  by (relation "measure (\<lambda>(rw, epe, odd, i). nat (i + 1))") auto

declare spread_window_loop.simps [simp del]

text \<open>\<^verbatim>\<open>spread_window\<close>. The quotients that give the number of extents and the
  elements of an extent divide by zero when there is no segment in an extent or
  no extent in the window: the result is \<open>None\<close>.\<close>

definition spread_window :: "SpreadWithRewiring \<Rightarrow> SpreadWithRewiring option" where
  "spread_window rw =
     (if m_segments_per_extent rw = 0 \<or> m_window_length rw div m_segments_per_extent rw = 0 then None
      else
        (let num_extents = m_window_length rw div m_segments_per_extent rw;
             elements_per_extent = rw_cardinality rw div num_extents;
             odd_extents = rw_cardinality rw mod num_extents
         in spread_window_loop rw elements_per_extent odd_extents (int num_extents - 1)))"

text \<open>\<^verbatim>\<open>update_segment_sizes\<close>, on the array of the segment sizes.\<close>

definition update_segment_sizes_extent :: "nat \<Rightarrow> nat \<Rightarrow> nat \<Rightarrow> nat \<Rightarrow> nat list \<Rightarrow> nat list" where
  "update_segment_sizes_extent first_segment num_segments elements_per_segment odd_segments sizes =
     fold (\<lambda>j sz. sz[first_segment + j := elements_per_segment + (if j < odd_segments then 1 else 0)])
          [0..<num_segments] sizes"

definition update_segment_sizes_array :: "nat \<Rightarrow> nat \<Rightarrow> nat \<Rightarrow> nat \<Rightarrow> nat list \<Rightarrow> nat list" where
  "update_segment_sizes_array window_start window_length cardinality segments_per_extent sizes =
     (let num_extents = window_length div segments_per_extent;
          elements_per_extent = cardinality div num_extents;
          odd_extents = cardinality mod num_extents
      in fold (\<lambda>i sz.
                 (let extent_cardinality = elements_per_extent + (if i < odd_extents then 1 else 0);
                      num_segments = segments_per_extent;
                      elements_per_segment = extent_cardinality div num_segments;
                      odd_segments = extent_cardinality mod num_segments
                  in update_segment_sizes_extent (window_start + i * segments_per_extent) num_segments
                       elements_per_segment odd_segments sz))
              [0..<num_extents] sizes)"

definition update_segment_sizes :: "SpreadWithRewiring \<Rightarrow> SpreadWithRewiring" where
  "update_segment_sizes rw =
     rw\<lparr>m_instance := (m_instance rw)\<lparr>m_segment_sizes :=
          update_segment_sizes_array (m_window_start rw) (m_window_length rw) (rw_cardinality rw)
            (m_segments_per_extent rw) (m_segment_sizes (m_instance rw))\<rparr>\<rparr>"

text \<open>\<^verbatim>\<open>SpreadWithRewiring::insert\<close> and \<^verbatim>\<open>update_index\<close>.\<close>

definition rw_insert :: "SpreadWithRewiring \<Rightarrow> nat \<Rightarrow> SpreadWithRewiring" where
  "rw_insert rw segment_id =
     rw\<lparr> m_instance := fst (storage_insert_unsafe (m_instance rw) segment_id (m_insert_key rw) (m_insert_value rw)),
         m_insert := False \<rparr>"

definition update_index_step :: "nat \<Rightarrow> SpreadWithRewiring \<Rightarrow> SpreadWithRewiring" where
  "update_index_step i rw =
     (let segment_id = m_window_start rw + i;
          minimum = get_minimum (m_instance rw) segment_id;
          (rw, minimum) =
            (if m_insert rw \<and> m_insert_key rw < minimum then
               (if i > 0 then (rw_insert rw (segment_id - 1), minimum)
                else (rw_insert rw segment_id, m_insert_key rw))
             else (rw, minimum))
      in rw\<lparr>m_instance := (m_instance rw)\<lparr>m_index :=
             set_separator_key (m_index (m_instance rw)) segment_id minimum\<rparr>\<rparr>)"

definition update_index :: "SpreadWithRewiring \<Rightarrow> SpreadWithRewiring" where
  "update_index rw =
     (let rw = fold update_index_step [0..<m_window_length rw] rw
      in if m_insert rw then rw_insert rw (m_window_start rw + m_window_length rw - 1) else rw)"

text \<open>The constructor, \<^verbatim>\<open>set_element_to_insert\<close> and \<^verbatim>\<open>execute\<close>.\<close>

definition SpreadWithRewiring_init :: "BTreePMACC7 \<Rightarrow> nat \<Rightarrow> nat \<Rightarrow> nat \<Rightarrow> SpreadWithRewiring" where
  "SpreadWithRewiring_init instance window_start window_length cardinality =
     (let window_end = window_start + window_length - 1 in
      \<lparr> m_instance = instance,
        m_window_start = window_start,
        m_window_length = window_length,
        rw_cardinality = cardinality,
        m_segments_per_extent =
          (case m_memory_keys instance of
             Some mem \<Rightarrow> get_extent_size mem div (m_segment_capacity instance * 8)
           | None \<Rightarrow> 0),
        m_insert = False, m_insert_key = -1, m_insert_value = -1,
        m_position = int (window_end * m_segment_capacity instance + m_segment_sizes instance ! window_end),
        m_extents_to_rewire = [] \<rparr>)"

definition set_element_to_insert :: "SpreadWithRewiring \<Rightarrow> int \<Rightarrow> int \<Rightarrow> SpreadWithRewiring" where
  "set_element_to_insert rw key value = rw\<lparr>m_insert := True, m_insert_key := key, m_insert_value := value\<rparr>"

definition execute :: "SpreadWithRewiring \<Rightarrow> SpreadWithRewiring option" where
  "execute rw =
     (case spread_window rw of
        None \<Rightarrow> None
      | Some rw \<Rightarrow> Some (update_index (update_segment_sizes rw)))"

subsection \<open>Resize\<close>

text \<open>\<^verbatim>\<open>log2(num_segments) + 1\<close>, stored in an integer: one more than the position
  of the highest bit.\<close>

function floor_log2 :: "nat \<Rightarrow> nat" where
  "floor_log2 n = (if n \<le> 1 then 0 else 1 + floor_log2 (n div 2))"
  by pat_completeness auto
termination
  by (relation "measure (\<lambda>n. n)") auto

declare floor_log2.simps [simp del]

text \<open>\<^verbatim>\<open>BTreePMACC7::resize_general\<close>. \<open>resize_general_copy\<close> is the inner
  \<^verbatim>\<open>do ... while(elements_to_copy > 0)\<close>: \<open>ixKeys\<close>, \<open>ixValues\<close> and \<open>ixSizes\<close>
  are the arrays of the old workspace, \<open>input\<close> and \<open>output\<close> the offsets of the
  two cursors. With the old segments used up and elements still to copy, the loop
  does not end. The two quotients at the head of \<^verbatim>\<open>resize_general\<close> divide by zero
  when the segment capacity or the new number of segments is zero.\<close>

function resize_general_copy ::
  "nat \<Rightarrow> nat \<Rightarrow> int list \<Rightarrow> int list \<Rightarrow> nat list \<Rightarrow>
   int list \<times> int list \<times> nat \<times> nat \<times> nat \<times> nat \<times> bool \<times> nat \<Rightarrow>
   (int list \<times> int list \<times> nat \<times> nat \<times> nat \<times> nat \<times> bool) option" where
  "resize_general_copy B number_segments ixKeys ixValues ixSizes
       (xKeys, xValues, output, input, input_size, input_segment_id, input_segment_odd, elements_to_copy) =
     (if input_size = 0 \<and> input_segment_id \<ge> number_segments \<and> elements_to_copy > 0 then None
      else
        (let cpy1 = min elements_to_copy input_size;
             xKeys' = memcpy xKeys output ixKeys input cpy1;
             xValues' = memcpy xValues output ixValues input cpy1;
             output' = output + cpy1;
             input' = input + cpy1;
             input_size' = input_size - cpy1;
             (input'', input_size'', input_segment_id', input_segment_odd') =
               (if input_size' = 0 then
                  (let input_segment_id1 = input_segment_id + 1;
                       input_segment_odd1 = (\<not> input_segment_odd)
                   in if input_segment_id1 < number_segments then
                        (let input_size1 = ixSizes ! input_segment_id1;
                             (input_size2, input_segment_id2, input_segment_odd2) =
                               (if input_size1 = 0 then
                                  (let input_segment_id2 = input_segment_id1 + 1 in
                                   (if input_segment_id2 < number_segments
                                    then ixSizes ! input_segment_id2 else input_size1,
                                    input_segment_id2, \<not> input_segment_odd1))
                                else (input_size1, input_segment_id1, input_segment_odd1));
                             offset = (if input_segment_odd2 then 0 else B - input_size2)
                         in (input_segment_id2 * B + offset, input_size2, input_segment_id2, input_segment_odd2))
                      else (input', input_size', input_segment_id1, input_segment_odd1))
                else (input', input_size', input_segment_id, input_segment_odd));
             elements_to_copy' = elements_to_copy - cpy1
         in if elements_to_copy' > 0 then
              resize_general_copy B number_segments ixKeys ixValues ixSizes
                (xKeys', xValues', output', input'', input_size'', input_segment_id', input_segment_odd',
                 elements_to_copy')
            else Some (xKeys', xValues', output', input'', input_size'', input_segment_id', input_segment_odd')))"
  by pat_completeness auto
termination
  by (relation "measures
        [\<lambda>(B, S, ik, iv, isz, xk, xv, out, inp, input_size, isid, iodd, etc). (S + 2) - isid,
         \<lambda>(B, S, ik, iv, isz, xk, xv, out, inp, input_size, isid, iodd, etc). etc]")
     (auto simp: min_def Let_def split: if_splits)

declare resize_general_copy.simps [simp del]

text \<open>The \<^verbatim>\<open>for\<close> over the output segments \<open>j\<close>. The state \<open>s\<close> already holds the
  new workspace; \<open>new_kv\<close> is the pair still to insert.\<close>

function resize_general_segments ::
  "nat \<Rightarrow> nat \<Rightarrow> nat \<Rightarrow> nat \<Rightarrow> int list \<Rightarrow> int list \<Rightarrow> nat list \<Rightarrow> nat \<Rightarrow>
   BTreePMACC7 \<times> (int \<times> int) option \<times> nat \<times> nat \<times> nat \<times> bool \<times> bool \<Rightarrow>
   (BTreePMACC7 \<times> (int \<times> int) option) option" where
  "resize_general_segments num_segments elements_per_segment odd_segments number_segments ixKeys ixValues ixSizes j
       (s, new_kv, input, input_size, input_segment_id, input_segment_odd, output_segment_odd) =
     (if j < num_segments then
        (let B = m_segment_capacity s;
             elements_to_copy = elements_per_segment + (if j < odd_segments then 1 else 0);
             output_offset = (if output_segment_odd then 0 else B - elements_to_copy);
             output_canonical_index = j * B;
             output = output_canonical_index + output_offset;
             s1 = s\<lparr> m_segment_sizes := (m_segment_sizes s)[j := elements_to_copy],
                     m_index := set_separator_key (m_index s) j (ixKeys ! input) \<rparr>
         in case resize_general_copy B number_segments ixKeys ixValues ixSizes
                   (m_keys s1, m_values s1, output, input, input_size, input_segment_id, input_segment_odd,
                    elements_to_copy) of
              None \<Rightarrow> None
            | Some (xKeys, xValues, output', input', input_size', input_segment_id', input_segment_odd') \<Rightarrow>
                (let s2 = s1\<lparr>m_keys := xKeys, m_values := xValues\<rparr>;
                     (s3, new_kv') =
                       (case new_kv of
                          Some (new_key, new_value) \<Rightarrow>
                            (if new_key < xKeys ! (output' - 1) then
                               (case storage_insert_unsafe s2 j new_key new_value of
                                  (s', minimum) \<Rightarrow>
                                    (if minimum then s'\<lparr>m_index := set_separator_key (m_index s') j new_key\<rparr>
                                     else s', None))
                             else (s2, new_kv))
                        | None \<Rightarrow> (s2, None))
                 in resize_general_segments num_segments elements_per_segment odd_segments number_segments
                      ixKeys ixValues ixSizes (j + 1)
                      (s3, new_kv', input', input_size', input_segment_id', input_segment_odd',
                       \<not> output_segment_odd)))
      else Some (s, new_kv))"
  by pat_completeness auto
termination
  by (relation "measure (\<lambda>(num_segments, eps, odd, S, ik, iv, isz, j, st). num_segments - j)") auto

declare resize_general_segments.simps [simp del]

definition resize_general :: "BTreePMACC7 \<Rightarrow> (int \<times> int) option \<Rightarrow> BTreePMACC7 option" where
  "resize_general s new_kv =
     (let is_insert = (new_kv \<noteq> None);
          B = m_segment_capacity s;
          capacity = (if is_insert then m_capacity s * 2 else m_capacity s div 2);
          num_segments = capacity div B;
          elements_per_segment = m_cardinality s div num_segments;
          odd_segments = m_cardinality s mod num_segments;
          ixKeys = m_keys s; ixValues = m_values s; ixSizes = m_segment_sizes s
      in if B = 0 \<or> num_segments = 0 then None else
         case alloc_workspace B (m_pages_per_extent s) (page_size s) num_segments of
           None \<Rightarrow> None
         | Some (xKeys, xValues, xSizes, mk, mv) \<Rightarrow>
             (let s1 = s\<lparr> m_keys := xKeys, m_values := xValues, m_segment_sizes := xSizes,
                         m_memory_keys := mk, m_memory_values := mv,
                         m_index := rebuild num_segments \<rparr>;
                  input_size0 = ixSizes ! 0;
                  (input, input_size, input_segment_id, input_segment_odd) =
                    (if input_size0 = 0 then (B, ixSizes ! 1, 1, True)
                     else (B - input_size0, input_size0, 0, False))
              in case resize_general_segments num_segments elements_per_segment odd_segments
                        (m_number_segments s) ixKeys ixValues ixSizes 0
                        (s1, new_kv, input, input_size, input_segment_id, input_segment_odd, False) of
                   None \<Rightarrow> None
                 | Some (s2, new_kv') \<Rightarrow>
                     (let s3 =
                        (case new_kv' of
                           Some (new_key, new_value) \<Rightarrow>
                             (case storage_insert_unsafe s2 (num_segments - 1) new_key new_value of
                                (s', minimum) \<Rightarrow>
                                  (if minimum
                                   then s'\<lparr>m_index := set_separator_key (m_index s') (num_segments - 1) new_key\<rparr>
                                   else s'))
                         | None \<Rightarrow> s2)
                      in Some (s3\<lparr> m_capacity := capacity,
                                   m_number_segments := num_segments,
                                   m_height := floor_log2 num_segments + 1 \<rparr>))))"

subsection \<open>Spread without rewiring\<close>

text \<open>
  \<^verbatim>\<open>BTreePMACC7::spread_two_copies\<close>. \<open>wb\<close> is the offset of the window in the
  arrays (\<^verbatim>\<open>output_keys = m_keys + segment_start * segment_capacity\<close>), \<open>ws\<close> the
  first segment of the window (\<^verbatim>\<open>sizes = m_segment_sizes + segment_start\<close>).
  \<open>insert_segment_id\<close> is \<open>-1\<close> without an element to insert. Step 2 divides by
  the number of segments of the window, a division by zero for a window without
  segments: the result is \<open>None\<close>.

  \<open>stc_fill_chunk2\<close> is the first \<^verbatim>\<open>while\<close> of step 1, which copies the last pairs
  of segments into the buffer \<^verbatim>\<open>input_chunk2\<close> from its right end.
\<close>

function stc_fill_chunk2 ::
  "nat \<Rightarrow> int list \<Rightarrow> int list \<Rightarrow> nat list \<Rightarrow> nat \<Rightarrow> nat \<Rightarrow> int \<Rightarrow> int \<Rightarrow> int \<Rightarrow>
   int list \<times> int list \<times> nat \<times> int \<times> nat \<times> nat \<times> nat \<times> nat \<Rightarrow>
   int list \<times> int list \<times> nat \<times> int \<times> nat \<times> nat \<times> nat" where
  "stc_fill_chunk2 B keys values sizes ws wb insert_segment_id new_key new_value
       (chunk2_keys, chunk2_values, space_left, output_segment_id, output_start, output_end, copied, cardn) =
     (if output_segment_id \<ge> 0 \<and> copied < 4 then
        (let elements2copy = output_end - output_start;
             (chunk2_keys', chunk2_values', space_left', card') =
               (if insert_segment_id = output_segment_id \<or> insert_segment_id = output_segment_id + 1 then
                  (case spread_insert_unsafe keys values (wb + output_start) chunk2_keys chunk2_values
                          (space_left - elements2copy - 1) elements2copy new_key new_value of
                     (ck, cv) \<Rightarrow> (ck, cv, space_left - 1, cardn + 1))
                else
                  (memcpy chunk2_keys (space_left - elements2copy) keys (wb + output_start) elements2copy,
                   memcpy chunk2_values (space_left - elements2copy) values (wb + output_start) elements2copy,
                   space_left, cardn));
             space_left'' = space_left' - elements2copy;
             output_segment_id' = output_segment_id - 2;
             (output_start', output_end') =
               (if output_segment_id' \<ge> 0 then
                  (let os = (nat output_segment_id' + 1) * B - sizes ! (ws + nat output_segment_id')
                   in (os, os + sizes ! (ws + nat output_segment_id') + sizes ! (ws + nat output_segment_id' + 1)))
                else (output_start, output_end))
         in stc_fill_chunk2 B keys values sizes ws wb insert_segment_id new_key new_value
              (chunk2_keys', chunk2_values', space_left'', output_segment_id', output_start', output_end',
               copied + 2, card'))
      else (chunk2_keys, chunk2_values, space_left, output_segment_id, output_start, output_end, cardn))"
  by pat_completeness auto
termination
  by (relation "measure (\<lambda>(B, keys, values, sizes, ws, wb, isid, nk, nv,
                           ck, cv, space_left, osid, os, oe, copied, cardn). 4 - copied)")
     (auto split: prod.splits if_splits)

declare stc_fill_chunk2.simps [simp del]

text \<open>\<open>stc_fill_chunk1\<close> is the second \<^verbatim>\<open>while\<close> of step 1, which moves the remaining
  pairs to the right end of the window.\<close>

function stc_fill_chunk1 ::
  "nat \<Rightarrow> nat list \<Rightarrow> nat \<Rightarrow> nat \<Rightarrow> int \<Rightarrow> int \<Rightarrow> int \<Rightarrow>
   int list \<times> int list \<times> nat \<times> int \<times> nat \<times> nat \<times> nat \<Rightarrow>
   int list \<times> int list \<times> nat \<times> nat" where
  "stc_fill_chunk1 B sizes ws wb insert_segment_id new_key new_value
       (keys, values, input_chunk1_current, output_segment_id, output_start, output_end, cardn) =
     (if output_segment_id \<ge> 0 then
        (let elements2copy = output_end - output_start;
             (keys', values', input_chunk1_current', card') =
               (if insert_segment_id = output_segment_id \<or> insert_segment_id = output_segment_id + 1 then
                  (case spread_insert_unsafe keys values (wb + output_start) keys values
                          (wb + input_chunk1_current - elements2copy - 1) elements2copy new_key new_value of
                     (k, v) \<Rightarrow> (k, v, input_chunk1_current - 1, cardn + 1))
                else
                  (memcpy keys (wb + input_chunk1_current - elements2copy) keys (wb + output_start) elements2copy,
                   memcpy values (wb + input_chunk1_current - elements2copy) values (wb + output_start) elements2copy,
                   input_chunk1_current, cardn));
             input_chunk1_current'' = input_chunk1_current' - elements2copy;
             output_segment_id' = output_segment_id - 2;
             (output_start', output_end') =
               (if output_segment_id' \<ge> 0 then
                  (let os = (nat output_segment_id' + 1) * B - sizes ! (ws + nat output_segment_id')
                   in (os, os + sizes ! (ws + nat output_segment_id') + sizes ! (ws + nat output_segment_id' + 1)))
                else (output_start, output_end))
         in stc_fill_chunk1 B sizes ws wb insert_segment_id new_key new_value
              (keys', values', input_chunk1_current'', output_segment_id', output_start', output_end', card'))
      else (keys, values, input_chunk1_current, cardn))"
  by pat_completeness auto
termination
  by (relation "measure (\<lambda>(B, sizes, ws, wb, isid, nk, nv,
                           keys, values, cur, osid, os, oe, cardn). nat (osid + 2))")
     (auto split: prod.splits if_splits)

declare stc_fill_chunk1.simps [simp del]

text \<open>Step 2: the expected size of each segment of the window.\<close>

definition stc_set_sizes :: "nat \<Rightarrow> nat \<Rightarrow> nat \<Rightarrow> nat list \<Rightarrow> nat list" where
  "stc_set_sizes ws num_segments cardinality sizes =
     (let elements_per_segment = cardinality div num_segments;
          num_odd_segments = cardinality mod num_segments
      in fold (\<lambda>i sz. sz[ws + i := elements_per_segment + (if i < num_odd_segments then 1 else 0)])
              [0..<num_segments] sizes)"

text \<open>Step 4. \<open>stc_copy\<close> is the inner \<^verbatim>\<open>while(output_current < output_end)\<close>: the
  input is \<^verbatim>\<open>input_chunk1\<close>, inside the array at offset \<open>c1\<close>, as long as
  \<open>in_chunk1\<close> holds, and the buffer \<^verbatim>\<open>input_chunk2\<close> at offset \<open>c2\<close> afterwards.
  When nothing can be copied and the input is not switched to the second chunk,
  the loop repeats the same step for ever.\<close>

function stc_copy ::
  "nat \<Rightarrow> nat \<Rightarrow> int list \<Rightarrow> int list \<Rightarrow> nat \<Rightarrow> nat \<Rightarrow> nat \<Rightarrow>
   int list \<times> int list \<times> nat \<times> bool \<times> nat \<times> nat \<Rightarrow>
   (int list \<times> int list \<times> bool \<times> nat \<times> nat) option" where
  "stc_copy wb c1 chunk2_keys chunk2_values c2 input_chunk2_size output_end
       (keys, values, output_current, in_chunk1, input_current, input_size) =
     (if output_current < output_end then
        (let elements2copy = min (output_end - output_current) (size_t_minus input_size input_current) in
         if elements2copy = 0 \<and> \<not> (in_chunk1 \<and> input_current = input_size) then None
         else
           (let keys' = (if in_chunk1
                         then memcpy keys (wb + output_current) keys (c1 + input_current) elements2copy
                         else memcpy keys (wb + output_current) chunk2_keys (c2 + input_current) elements2copy);
                values' = (if in_chunk1
                           then memcpy values (wb + output_current) values (c1 + input_current) elements2copy
                           else memcpy values (wb + output_current) chunk2_values (c2 + input_current) elements2copy);
                output_current' = output_current + elements2copy;
                input_current' = input_current + elements2copy
            in if input_current' = input_size \<and> in_chunk1 then
                 stc_copy wb c1 chunk2_keys chunk2_values c2 input_chunk2_size output_end
                   (keys', values', output_current', False, 0, input_chunk2_size)
               else
                 stc_copy wb c1 chunk2_keys chunk2_values c2 input_chunk2_size output_end
                   (keys', values', output_current', in_chunk1, input_current', input_size)))
      else Some (keys, values, in_chunk1, input_current, input_size))"
  by pat_completeness auto
termination
  by (relation "measures
        [\<lambda>(wb, c1, ck, cv, c2, c2sz, oe, keys, values, oc, in1, ic, isz). if in1 then 1 else 0,
         \<lambda>(wb, c1, ck, cv, c2, c2sz, oe, keys, values, oc, in1, ic, isz). oe - oc]")
     (auto simp: min_def split: if_splits)

declare stc_copy.simps [simp del]

function stc_redistribute ::
  "nat \<Rightarrow> nat list \<Rightarrow> nat \<Rightarrow> nat \<Rightarrow> nat \<Rightarrow> nat \<Rightarrow> int list \<Rightarrow> int list \<Rightarrow> nat \<Rightarrow> nat \<Rightarrow> nat \<Rightarrow>
   int list \<times> int list \<times> int list \<times> bool \<times> nat \<times> nat \<Rightarrow>
   (int list \<times> int list \<times> int list) option" where
  "stc_redistribute B sizes ws wb num_segments c1 chunk2_keys chunk2_values c2 input_chunk2_size i
       (keys, values, ix, in_chunk1, input_current, input_size) =
     (if i < num_segments then
        (let output_start = (i + 1) * B - sizes ! (ws + i);
             output_end = output_start + sizes ! (ws + i) + sizes ! (ws + i + 1)
         in case stc_copy wb c1 chunk2_keys chunk2_values c2 input_chunk2_size output_end
                   (keys, values, output_start, in_chunk1, input_current, input_size) of
              None \<Rightarrow> None
            | Some (keys', values', in_chunk1', input_current', input_size') \<Rightarrow>
                (let ix' = set_separator_key ix (ws + i) (keys' ! (wb + output_start));
                     ix'' = set_separator_key ix' (ws + i + 1) (keys' ! (wb + output_start + sizes ! (ws + i)))
                 in stc_redistribute B sizes ws wb num_segments c1 chunk2_keys chunk2_values c2
                      input_chunk2_size (i + 2)
                      (keys', values', ix'', in_chunk1', input_current', input_size')))
      else Some (keys, values, ix))"
  by pat_completeness auto
termination
  by (relation "measure (\<lambda>(B, sizes, ws, wb, num_segments, c1, ck, cv, c2, c2sz, i, st). num_segments - i)")
     auto

declare stc_redistribute.simps [simp del]

definition spread_two_copies ::
  "BTreePMACC7 \<Rightarrow> nat \<Rightarrow> nat \<Rightarrow> nat \<Rightarrow> (int \<times> int \<times> nat) option \<Rightarrow> BTreePMACC7 option" where
  "spread_two_copies s cardinality segment_start num_segments spread_insertion =
     (if num_segments = 0 then None else
      let B = m_segment_capacity s;
          (insert_segment_id, new_key, new_value) =
            (case spread_insertion of
               Some (k, v, segment_id) \<Rightarrow> (int segment_id - int segment_start, k, v)
             | None \<Rightarrow> (-1, 0, 0));
          sizes = m_segment_sizes s;
          ws = segment_start;
          wb = segment_start * B;
          input_chunk2_capacity = B * 4 + 1;
          output_segment_id = int num_segments - 2;
          output_start = (nat output_segment_id + 1) * B - sizes ! (ws + nat output_segment_id);
          output_end = output_start + sizes ! (ws + nat output_segment_id) + sizes ! (ws + nat output_segment_id + 1)
      in case stc_fill_chunk2 B (m_keys s) (m_values s) sizes ws wb insert_segment_id new_key new_value
                (replicate input_chunk2_capacity 0, replicate input_chunk2_capacity 0, input_chunk2_capacity,
                 output_segment_id, output_start, output_end, 0, m_cardinality s) of
           (chunk2_keys, chunk2_values, input_chunk2_space_left, output_segment_id1, output_start1, output_end1, card1) \<Rightarrow>
             (let input_chunk2_size = input_chunk2_capacity - input_chunk2_space_left in
              case stc_fill_chunk1 B sizes ws wb insert_segment_id new_key new_value
                     (m_keys s, m_values s, num_segments * B, output_segment_id1, output_start1, output_end1, card1) of
                (keys1, values1, input_chunk1_current, card2) \<Rightarrow>
                  (let input_chunk1_size = num_segments * B - input_chunk1_current;
                       sizes' = stc_set_sizes ws num_segments cardinality sizes;
                       (in_chunk1, input_size) =
                         (if input_chunk1_size > 0 then (True, input_chunk1_size)
                          else (False, input_chunk2_size))
                   in case stc_redistribute B sizes' ws wb num_segments (wb + input_chunk1_current)
                             chunk2_keys chunk2_values input_chunk2_space_left input_chunk2_size 0
                             (keys1, values1, m_index s, in_chunk1, 0, input_size) of
                        None \<Rightarrow> None
                      | Some (keys2, values2, ix) \<Rightarrow>
                          Some (s\<lparr> m_keys := keys2, m_values := values2, m_segment_sizes := sizes',
                                   m_index := ix, m_cardinality := card2 \<rparr>))))"

subsection \<open>Rebalance\<close>

text \<open>\<^verbatim>\<open>BTreePMACC7::spread\<close>. The constructor of \<^verbatim>\<open>SpreadWithRewiring\<close> divides the
  size of an extent by the size of a segment in bytes, which is a division by zero
  when the segment capacity is zero.\<close>

definition spread ::
  "BTreePMACC7 \<Rightarrow> nat \<Rightarrow> nat \<Rightarrow> nat \<Rightarrow> (int \<times> int \<times> nat) option \<Rightarrow> BTreePMACC7 option" where
  "spread s cardinality segment_start num_segments spread_insertion =
     (case m_memory_keys s of
        Some mem \<Rightarrow>
          (if num_segments * m_segment_capacity s * 8 \<ge> get_extent_size mem then
             if m_segment_capacity s = 0 then None else
             (let rewiring_instance =
                    SpreadWithRewiring_init s segment_start num_segments
                      (cardinality - (if spread_insertion \<noteq> None then 1 else 0));
                  rewiring_instance =
                    (case spread_insertion of
                       Some (k, v, segment_id) \<Rightarrow> set_element_to_insert rewiring_instance k v
                     | None \<Rightarrow> rewiring_instance)
              in map_option m_instance (execute rewiring_instance))
           else spread_two_copies s cardinality segment_start num_segments spread_insertion)
      | None \<Rightarrow> spread_two_copies s cardinality segment_start num_segments spread_insertion)"

text \<open>\<^verbatim>\<open>BTreePMACC7::rebalance\<close>. \<open>count_left\<close> and \<open>count_right\<close> are the two loops
  that add the sizes of the segments of the window, \<open>rebalance_search\<close> is the
  \<^verbatim>\<open>do ... while\<close> that climbs the calibrator tree.\<close>

function count_left :: "nat list \<Rightarrow> int \<Rightarrow> nat \<Rightarrow> nat \<Rightarrow> nat \<times> int" where
  "count_left sizes index_left window_start num_elements =
     (if index_left \<ge> int window_start
      then count_left sizes (index_left - 1) window_start (num_elements + sizes ! nat index_left)
      else (num_elements, index_left))"
  by pat_completeness auto
termination
  by (relation "measure (\<lambda>(sizes, index_left, window_start, n). nat (index_left - int window_start + 1))") auto

declare count_left.simps [simp del]

function count_right :: "nat list \<Rightarrow> nat \<Rightarrow> nat \<Rightarrow> nat \<Rightarrow> nat \<times> nat" where
  "count_right sizes index_right window_end num_elements =
     (if index_right < window_end
      then count_right sizes (index_right + 1) window_end (num_elements + sizes ! index_right)
      else (num_elements, index_right))"
  by pat_completeness auto
termination
  by (relation "measure (\<lambda>(sizes, index_right, window_end, n). window_end - index_right)") auto

declare count_right.simps [simp del]

function rebalance_search ::
  "BTreePMACC7 \<Rightarrow> bool \<Rightarrow> nat \<Rightarrow> nat \<Rightarrow> nat \<Rightarrow> int \<Rightarrow> nat \<Rightarrow> nat \<Rightarrow>
   nat \<times> nat \<times> nat \<times> rat \<times> rat \<times> rat" where
  "rebalance_search s is_insert height window_length window_id index_left index_right num_elements =
     (let height' = height + 1;
          window_length' = window_length * 2;
          window_id' = window_id div 2;
          window_start = window_id' * window_length';
          window_end = window_start + window_length';
          rho = fst (thresholds s height');
          theta = snd (thresholds s height');
          nl = count_left (m_segment_sizes s) index_left window_start num_elements;
          nr = count_right (m_segment_sizes s) index_right window_end (fst nl);
          num_elements' = fst nr;
          density = rat_of_nat num_elements' / rat_of_nat (window_length' * m_segment_capacity s)
      in if ((is_insert \<and> density > theta) \<or> (\<not> is_insert \<and> density < rho)) \<and> height' < m_height s
         then rebalance_search s is_insert height' window_length' window_id' (snd nl) (snd nr) num_elements'
         else (num_elements', window_start, window_length', rho, theta, density))"
  by pat_completeness auto
termination
  by (relation "measure (\<lambda>(s, is_insert, height, wl, wid, il, ir, n). m_height s - height)") auto

declare rebalance_search.simps [simp del]

definition rebalance :: "BTreePMACC7 \<Rightarrow> nat \<Rightarrow> (int \<times> int) option \<Rightarrow> BTreePMACC7 option" where
  "rebalance s segment_id kv =
     (let is_insert = (kv \<noteq> None);
          num_elements = (if is_insert then m_segment_capacity s + 1 else m_segment_sizes s ! segment_id);
          (num_elements, window_start, window_length, rho, theta, density) =
            (if m_height s > 1
             then rebalance_search s is_insert 1 1 segment_id (int segment_id - 1) (segment_id + 1) num_elements
             else (num_elements, segment_id, 1, 0, 1,
                   rat_of_nat num_elements / rat_of_nat (m_segment_capacity s)));
          result =
            (if (is_insert \<and> density \<le> theta) \<or> (\<not> is_insert \<and> density \<ge> rho) then
               spread s num_elements window_start window_length
                 (case kv of Some (k, v) \<Rightarrow> Some (k, v, segment_id) | None \<Rightarrow> None)
             else resize_general s kv)
      in map_option (\<lambda>s'. s'\<lparr>m_profiles := m_profiles s' @ [is_insert]\<rparr>) result)"

text \<open>\<^verbatim>\<open>BTreePMACC7::insert_common\<close> and \<^verbatim>\<open>BTreePMACC7::insert\<close>.\<close>

definition insert_common :: "BTreePMACC7 \<Rightarrow> nat \<Rightarrow> int \<Rightarrow> int \<Rightarrow> BTreePMACC7 option" where
  "insert_common s segment_id key value =
     (let bucket_cardinality = m_segment_sizes s ! segment_id in
      if bucket_cardinality = m_segment_capacity s then
        rebalance s segment_id (Some (key, value))
      else
        (case storage_insert_unsafe s segment_id key value of
           (s', minimum_updated) \<Rightarrow>
             Some (if minimum_updated
                   then s'\<lparr>m_index := set_separator_key (m_index s') segment_id key\<rparr>
                   else s')))"

definition insert_pma :: "BTreePMACC7 \<Rightarrow> int \<Rightarrow> int \<Rightarrow> BTreePMACC7 option" where
  "insert_pma s key value =
     (if empty_pma s then Some (insert_empty s key value)
      else insert_common s (index_find (m_index s) key) key value)"

subsection \<open>Remove\<close>

definition INT64_MIN :: int where
  "INT64_MIN = - (2 ^ 63)"

definition INT64_MAX :: int where
  "INT64_MAX = 2 ^ 63 - 1"

text \<open>The linear scan \<^verbatim>\<open>for(; i < stop; i++){ if(keys[i] == key) break; }\<close> of
  \<^verbatim>\<open>remove\<close> and \<^verbatim>\<open>find\<close>, in the segment at offset \<open>base\<close>.\<close>

function scan_key :: "int list \<Rightarrow> nat \<Rightarrow> nat \<Rightarrow> nat \<Rightarrow> int \<Rightarrow> nat" where
  "scan_key keys base i stop key =
     (if i < stop then (if keys ! (base + i) = key then i else scan_key keys base (i + 1) stop key)
      else i)"
  by pat_completeness auto
termination
  by (relation "measure (\<lambda>(keys, base, i, stop, key). stop - i)") auto

declare scan_key.simps [simp del]

text \<open>The loops of \<^verbatim>\<open>remove\<close> that close the gap: in an even segment the cells
  before the removed one move one step to the right, in an odd segment the cells
  after it move one step to the left.\<close>

function remove_shift_even :: "int list \<Rightarrow> nat \<Rightarrow> nat \<Rightarrow> nat \<Rightarrow> int list" where
  "remove_shift_even xs base j imin =
     (if j > imin then remove_shift_even (xs[base + j := xs ! (base + j - 1)]) base (j - 1) imin
      else xs)"
  by pat_completeness auto
termination
  by (relation "measure (\<lambda>(xs, base, j, imin). j)") auto

declare remove_shift_even.simps [simp del]

function remove_shift_odd :: "int list \<Rightarrow> nat \<Rightarrow> nat \<Rightarrow> nat \<Rightarrow> int list" where
  "remove_shift_odd xs base j sz =
     (if j < sz - 1 then remove_shift_odd (xs[base + j := xs ! (base + j + 1)]) base (j + 1) sz
      else xs)"
  by pat_completeness auto
termination
  by (relation "measure (\<lambda>(xs, base, j, sz). sz - j)") auto

declare remove_shift_odd.simps [simp del]

text \<open>The first part of \<^verbatim>\<open>BTreePMACC7::remove\<close>, up to the comment
  \<^verbatim>\<open>// shall we rebalance ?\<close>, for a container that is not empty: the new state,
  the segment, its new size \<^verbatim>\<open>sz\<close> and \<^verbatim>\<open>value\<close>.\<close>

definition remove_from_segment :: "BTreePMACC7 \<Rightarrow> int \<Rightarrow> BTreePMACC7 \<times> nat \<times> nat \<times> int" where
  "remove_from_segment s key =
     (let segment_id = index_find (m_index s) key;
          B = m_segment_capacity s;
          base = segment_id * B;
          sz = m_segment_sizes s ! segment_id
      in if segment_id mod 2 = 0 then
           (let imin = B - sz;
                i = scan_key (m_keys s) base imin B key
            in if i < B then
                 (let value = m_values s ! (base + i);
                      keys = remove_shift_even (m_keys s) base i imin;
                      values = remove_shift_even (m_values s) base i imin;
                      sz' = sz - 1;
                      s1 = s\<lparr> m_keys := keys, m_values := values,
                              m_segment_sizes := (m_segment_sizes s)[segment_id := sz'],
                              m_cardinality := m_cardinality s - 1 \<rparr>;
                      s2 = (if i = imin then
                              (if m_cardinality s1 = 0
                               then s1\<lparr>m_index := set_separator_key (m_index s1) 0 INT64_MIN\<rparr>
                               else s1\<lparr>m_index := set_separator_key (m_index s1) segment_id
                                                      (keys ! (base + imin + 1))\<rparr>)
                            else s1)
                  in (s2, segment_id, sz', value))
               else (s, segment_id, sz, -1))
         else
           (let i = scan_key (m_keys s) base 0 sz key
            in if i < sz then
                 (let value = m_values s ! (base + i);
                      keys = remove_shift_odd (m_keys s) base i sz;
                      values = remove_shift_odd (m_values s) base i sz;
                      sz' = sz - 1;
                      s1 = s\<lparr> m_keys := keys, m_values := values,
                              m_segment_sizes := (m_segment_sizes s)[segment_id := sz'],
                              m_cardinality := m_cardinality s - 1 \<rparr>;
                      s2 = (if i = 0 \<and> sz' > 0
                            then s1\<lparr>m_index := set_separator_key (m_index s1) segment_id (keys ! base)\<rparr>
                            else s1)
                  in (s2, segment_id, sz', value))
               else (s, segment_id, sz, -1)))"

text \<open>\<^verbatim>\<open>BTreePMACC7::remove\<close>. The product of the lower threshold of the leaves
  and the segment capacity is converted to \<^verbatim>\<open>size_t\<close>, which drops its
  fractional part.\<close>

definition remove_pma :: "BTreePMACC7 \<Rightarrow> int \<Rightarrow> (BTreePMACC7 \<times> int) option" where
  "remove_pma s key =
     (if empty_pma s then Some (s, -1)
      else
        (case remove_from_segment s key of
           (s1, segment_id, sz, value) \<Rightarrow>
             (if value \<noteq> -1 \<and> m_number_segments s1 > 1 then
                (let minimum_size =
                       max (nat \<lfloor>fst (thresholds s1 1) * rat_of_nat (m_segment_capacity s1)\<rfloor>) 1
                 in if sz < minimum_size
                    then map_option (\<lambda>s2. (s2, value)) (rebalance s1 segment_id None)
                    else Some (s1, value))
              else Some (s1, value))))"

subsection \<open>Search\<close>

text \<open>\<^verbatim>\<open>BTreePMACC7::find(int64_t key)\<close>.\<close>

definition find_pma :: "BTreePMACC7 \<Rightarrow> int \<Rightarrow> int" where
  "find_pma s key =
     (if empty_pma s then -1
      else
        (let segment_id = index_find (m_index s) key;
             B = m_segment_capacity s;
             base = segment_id * B;
             sz = m_segment_sizes s ! segment_id;
             (start, stop) = (if segment_id mod 2 = 0 then (B - sz, B) else (0, sz));
             i = scan_key (m_keys s) base start stop key
         in if i < stop then m_values s ! (segment_id * B + i) else -1))"

subsection \<open>Iterator\<close>

text \<open>The two searches that \<^verbatim>\<open>Iterator::Iterator\<close> and \<^verbatim>\<open>BTreePMACC7::sum\<close> share
  word for word: for the first cell whose key is not below \<open>key_min\<close>, from
  \<open>segment_start\<close> to the right, and for the last cell whose key is not above
  \<open>key_max\<close>, from \<open>segment_end\<close> to the left. The cursors are \<^verbatim>\<open>ssize_t\<close>.\<close>

function scan_lower :: "int list \<Rightarrow> int \<Rightarrow> int \<Rightarrow> int \<Rightarrow> int" where
  "scan_lower keys offset stop key_min =
     (if offset < stop \<and> keys ! nat offset < key_min then scan_lower keys (offset + 1) stop key_min
      else offset)"
  by pat_completeness auto
termination
  by (relation "measure (\<lambda>(keys, offset, stop, key_min). nat (stop - offset))") auto

declare scan_lower.simps [simp del]

function scan_upper :: "int list \<Rightarrow> int \<Rightarrow> int \<Rightarrow> int \<Rightarrow> int" where
  "scan_upper keys offset stop key_max =
     (if offset \<ge> stop \<and> keys ! nat offset > key_max then scan_upper keys (offset - 1) stop key_max
      else offset)"
  by pat_completeness auto
termination
  by (relation "measure (\<lambda>(keys, offset, stop, key_max). nat (offset - stop + 1))") auto

declare scan_upper.simps [simp del]

function search_lower ::
  "BTreePMACC7 \<Rightarrow> int \<Rightarrow> int \<times> bool \<times> int \<times> int \<times> bool \<Rightarrow> int \<times> bool \<times> int \<times> int \<times> bool" where
  "search_lower s key_min (segment_id, segment_even, stop, offset, notfound) =
     (if notfound \<and> segment_id < int (m_number_segments s) then
        (let B = int (m_segment_capacity s);
             sz = int (m_segment_sizes s ! nat segment_id);
             start = (if segment_even then (segment_id + 1) * B - sz else segment_id * B);
             stop' = (if segment_even then (segment_id + 1) * B else segment_id * B + sz);
             offset' = scan_lower (m_keys s) start stop' key_min
         in if offset' = stop'
            then search_lower s key_min (segment_id + 1, \<not> segment_even, stop', offset', True)
            else (segment_id, segment_even, stop', offset', False))
      else (segment_id, segment_even, stop, offset, notfound))"
  by pat_completeness auto
termination
  by (relation "measure (\<lambda>(s, key_min, segment_id, segment_even, stop, offset, notfound).
            nat (int (m_number_segments s) - segment_id))")
     auto

declare search_lower.simps [simp del]

function search_upper ::
  "BTreePMACC7 \<Rightarrow> int \<Rightarrow> int \<Rightarrow> int \<times> bool \<times> int \<times> bool \<Rightarrow> int \<times> bool \<times> int \<times> bool" where
  "search_upper s key_max interval_start_segment (segment_id, segment_even, offset, notfound) =
     (if notfound \<and> segment_id \<ge> interval_start_segment then
        (let B = int (m_segment_capacity s);
             sz = int (m_segment_sizes s ! nat segment_id);
             start = (if segment_even then (segment_id + 1) * B - 1 else segment_id * B + sz - 1);
             stop = (if segment_even then (segment_id + 1) * B - 1 - sz else segment_id * B);
             offset' = scan_upper (m_keys s) start stop key_max
         in if offset' < stop
            then search_upper s key_max interval_start_segment (segment_id - 1, \<not> segment_even, offset', True)
            else (segment_id, segment_even, offset', False))
      else (segment_id, segment_even, offset, notfound))"
  by pat_completeness auto
termination
  by (relation "measure (\<lambda>(s, key_max, iss, segment_id, segment_even, offset, notfound).
            nat (segment_id - iss + 1))")
     auto

declare search_upper.simps [simp del]

text \<open>The class \<^verbatim>\<open>btree_pmacc7_details::Iterator\<close>; the storage it refers to is
  passed to its functions.\<close>

record Iterator =
  m_next_segment :: nat
  m_offset :: nat
  m_stop :: nat
  m_index_max :: nat

definition empty_iterator :: Iterator where
  "empty_iterator = \<lparr>m_next_segment = 0, m_offset = 0, m_stop = 0, m_index_max = 0\<rparr>"

definition Iterator_init :: "BTreePMACC7 \<Rightarrow> nat \<Rightarrow> nat \<Rightarrow> int \<Rightarrow> int \<Rightarrow> error + Iterator" where
  "Iterator_init s segment_start segment_end key_min key_max =
     (if segment_start > segment_end then Inl (invalid_argument ''segment_start > segment_end'')
      else if segment_end \<ge> m_number_segments s then Inr empty_iterator
      else
        (case search_lower s key_min (int segment_start, segment_start mod 2 = 0, -1, -1, True) of
           (segment_id, segment_even, stop, offset, notfound) \<Rightarrow>
             (let it_offset = nat offset;
                  next_segment = nat (segment_id + 1);
                  (it_stop, next_segment) =
                    (if segment_even \<and> next_segment < m_number_segments s
                     then (next_segment * m_segment_capacity s + m_segment_sizes s ! next_segment,
                           next_segment + 1)
                     else (nat stop, next_segment))
              in if notfound \<or> m_keys s ! it_offset > key_max then
                   Inr \<lparr>m_next_segment = next_segment, m_offset = it_offset, m_stop = 0, m_index_max = 0\<rparr>
                 else
                   (case search_upper s key_max segment_id
                           (int segment_end, segment_end mod 2 = 0, offset, True) of
                      (segment_id2, segment_even2, offset2, notfound2) \<Rightarrow>
                        (if offset2 < int it_offset then
                           Inr \<lparr>m_next_segment = next_segment, m_offset = it_offset,
                                m_stop = 0, m_index_max = 0\<rparr>
                         else
                           Inr \<lparr>m_next_segment = next_segment, m_offset = it_offset,
                                m_stop = min (nat (offset2 + 1)) it_stop,
                                m_index_max = nat (offset2 + 1)\<rparr>)))))"

definition next_sequence :: "BTreePMACC7 \<Rightarrow> Iterator \<Rightarrow> Iterator" where
  "next_sequence s it =
     (let segment1 = m_next_segment it; B = m_segment_capacity s in
      if segment1 < m_number_segments s then
        (if segment1 mod 2 = 0 then
           (let offset = segment1 * B + B - m_segment_sizes s ! segment1;
                segment2 = segment1 + 1;
                stop = segment2 * B;
                stop = (if segment2 < m_number_segments s
                        then min (stop + m_segment_sizes s ! segment2) (m_index_max it)
                        else min stop (m_index_max it))
            in it\<lparr>m_offset := offset, m_stop := stop, m_next_segment := m_next_segment it + 2\<rparr>)
         else
           (let offset = segment1 * B
            in it\<lparr>m_offset := offset,
                  m_stop := min (m_index_max it) (offset + m_segment_sizes s ! segment1),
                  m_next_segment := m_next_segment it + 1\<rparr>))
      else it)"

definition hasNext :: "Iterator \<Rightarrow> bool" where
  "hasNext it = (m_offset it < m_stop it)"

definition next_it :: "BTreePMACC7 \<Rightarrow> Iterator \<Rightarrow> (int \<times> int) \<times> Iterator" where
  "next_it s it =
     (let result = (m_keys s ! m_offset it, m_values s ! m_offset it);
          it = it\<lparr>m_offset := m_offset it + 1\<rparr>
      in (result, if m_offset it \<ge> m_stop it then next_sequence s it else it))"

text \<open>\<^verbatim>\<open>BTreePMACC7::iterator()\<close> and the range query
  \<^verbatim>\<open>BTreePMACC7::find(min, max)\<close>.\<close>

definition iterator :: "BTreePMACC7 \<Rightarrow> error + Iterator" where
  "iterator s =
     (if empty_pma s then Inr empty_iterator
      else Iterator_init s 0 (m_number_segments s - 1) INT64_MIN INT64_MAX)"

definition find_range :: "BTreePMACC7 \<Rightarrow> int \<Rightarrow> int \<Rightarrow> error + Iterator" where
  "find_range s min_key max_key =
     (if empty_pma s then Inr empty_iterator
      else Iterator_init s (index_find_first (m_index s) min_key) (index_find_last (m_index s) max_key)
             min_key max_key)"

text \<open>The pairs that a caller obtains from an iterator with
  \<^verbatim>\<open>while(it->hasNext()) it->next()\<close>.\<close>

function drain :: "BTreePMACC7 \<Rightarrow> Iterator \<Rightarrow> (int \<times> int) list" where
  "drain s it = (if hasNext it then (case next_it s it of (kv, it') \<Rightarrow> kv # drain s it') else [])"
  by pat_completeness auto
termination
  by (relation "measures
        [\<lambda>(s, it). (m_number_segments s + 2) - m_next_segment it,
         \<lambda>(s, it). m_stop it - m_offset it]")
     (auto simp: hasNext_def next_it_def next_sequence_def Let_def split: if_splits)

declare drain.simps [simp del]

subsection \<open>Aggregate sum\<close>

text \<open>The result of \<^verbatim>\<open>sum\<close> (struct \<^verbatim>\<open>SumResult\<close> of the interface, whose
  members start at zero). The two acc2 are signed 64-bit integers and the count
  is an unsigned one: additions wrap around.\<close>

record SumResult =
  m_first_key :: int
  m_last_key :: int
  m_num_elements :: int
  m_sum_keys :: int
  m_sum_values :: int

definition SumResult_empty :: SumResult where
  "SumResult_empty = \<lparr>m_first_key = 0, m_last_key = 0, m_num_elements = 0, m_sum_keys = 0, m_sum_values = 0\<rparr>"

definition int64_wrap :: "int \<Rightarrow> int" where
  "int64_wrap x = (x + 2 ^ 63) mod 2 ^ 64 - 2 ^ 63"

definition uint64_wrap :: "int \<Rightarrow> int" where
  "uint64_wrap x = x mod 2 ^ 64"

function sum_cells :: "int list \<Rightarrow> int list \<Rightarrow> int \<Rightarrow> int \<Rightarrow> int \<times> int \<Rightarrow> int \<times> int" where
  "sum_cells keys values offset stop (sum_keys, sum_values) =
     (if offset < stop
      then sum_cells keys values (offset + 1) stop
             (int64_wrap (sum_keys + keys ! nat offset), int64_wrap (sum_values + values ! nat offset))
      else (sum_keys, sum_values))"
  by pat_completeness auto
termination
  by (relation "measure (\<lambda>(keys, values, offset, stop, acc). nat (stop - offset))") auto

declare sum_cells.simps [simp del]

text \<open>The last loop of \<^verbatim>\<open>sum\<close>, \<^verbatim>\<open>while(offset < end)\<close>. Past the last segment
  the cursors do not change any more: if cells are still missing then, the loop
  does not end.\<close>

function sum_loop ::
  "BTreePMACC7 \<Rightarrow> int \<Rightarrow> int \<times> int \<times> int \<times> int \<times> int \<times> int \<Rightarrow> (int \<times> int \<times> int) option" where
  "sum_loop s end_offset (offset, stop, segment_id, num_elements, sum_keys, sum_values) =
     (if offset < end_offset then
        (let num_elements' = uint64_wrap (num_elements + (stop - offset));
             acc2 = sum_cells (m_keys s) (m_values s) offset stop (sum_keys, sum_values);
             offset' = (if offset < stop then stop else offset);
             segment_id' = segment_id + 1 + (if segment_id mod 2 = 0 then 1 else 0)
         in if segment_id' < int (m_number_segments s) then
              (let size_lhs = int (m_segment_sizes s ! nat segment_id');
                   size_rhs = int (m_segment_sizes s ! nat (segment_id' + 1));
                   offset'' = (segment_id' + 1) * int (m_segment_capacity s) - size_lhs;
                   stop'' = min end_offset (offset'' + size_lhs + size_rhs)
               in sum_loop s end_offset (offset'', stop'', segment_id', num_elements', fst acc2, snd acc2))
            else if offset' < end_offset then None
            else Some (num_elements', fst acc2, snd acc2))
      else Some (num_elements, sum_keys, sum_values))"
  by pat_completeness auto
termination
  by (relation "measure (\<lambda>(s, end_offset, offset, stop, segment_id, acc).
            nat (int (m_number_segments s) - segment_id))")
     auto

declare sum_loop.simps [simp del]

text \<open>\<^verbatim>\<open>BTreePMACC7::sum\<close>.\<close>

definition sum_pma :: "BTreePMACC7 \<Rightarrow> int \<Rightarrow> int \<Rightarrow> SumResult option" where
  "sum_pma s min_key max_key =
     (if min_key > max_key \<or> empty_pma s then Some SumResult_empty
      else
        (let segment_start = int (index_find_first (m_index s) min_key);
             segment_end = int (index_find_last (m_index s) max_key)
         in if segment_end < segment_start then Some SumResult_empty
            else
              (case search_lower s min_key (segment_start, segment_start mod 2 = 0, -1, -1, True) of
                 (segment_id, segment_even, stop, offset, notfound) \<Rightarrow>
                   (let stop = (if segment_even \<and> segment_id < int (m_number_segments s) - 1
                                then (segment_id + 1) * int (m_segment_capacity s)
                                     + int (m_segment_sizes s ! nat (segment_id + 1))
                                else stop)
                    in if notfound \<or> m_keys s ! nat offset > max_key then Some SumResult_empty
                       else
                         (case search_upper s max_key segment_id
                                 (segment_end, segment_end mod 2 = 0, -1, True) of
                            (segment_id2, segment_even2, offset2, notfound2) \<Rightarrow>
                              (let end_offset = offset2 + 1 in
                               if end_offset \<le> offset then Some SumResult_empty
                               else
                                 (case sum_loop s end_offset (offset, min stop end_offset, segment_id, 0, 0, 0) of
                                    None \<Rightarrow> None
                                  | Some (num_elements, sum_keys, sum_values) \<Rightarrow>
                                      Some \<lparr> m_first_key = m_keys s ! nat offset,
                                             m_last_key = m_keys s ! nat (end_offset - 1),
                                             m_num_elements = num_elements,
                                             m_sum_keys = sum_keys,
                                             m_sum_values = sum_values \<rparr>)))))))"

subsection \<open>Bulk loading into an empty container\<close>

text \<open>\<^verbatim>\<open>BTreePMACC7::load_empty_single\<close>.\<close>

definition load_empty_single :: "BTreePMACC7 \<Rightarrow> (int \<times> int) list \<Rightarrow> BTreePMACC7" where
  "load_empty_single s array =
     (let array_sz = length array;
          output_start = m_segment_capacity s - array_sz
      in s\<lparr> m_keys := fold (\<lambda>i ks. ks[output_start + i := fst (array ! i)]) [0..<array_sz] (m_keys s),
             m_values := fold (\<lambda>i vs. vs[output_start + i := snd (array ! i)]) [0..<array_sz] (m_values s),
             m_index := set_separator_key (m_index s) 0 (fst (array ! 0)),
             m_segment_sizes := (m_segment_sizes s)[0 := array_sz],
             m_cardinality := array_sz \<rparr>)"

text \<open>\<^verbatim>\<open>BTreePMACC7::load_empty_multi\<close>. \<open>load_empty_run\<close> is the inner \<^verbatim>\<open>for\<close> of
  step 4, \<open>load_empty_pairs\<close> the outer one. The quotient of the batch size and
  the target density is taken exactly; the quotients by the segment capacity and by
  the number of segments divide by zero when these are zero.\<close>

function load_empty_run ::
  "(int \<times> int) list \<Rightarrow> nat \<Rightarrow> nat \<Rightarrow> int list \<times> int list \<times> nat \<Rightarrow> int list \<times> int list \<times> nat" where
  "load_empty_run array output_end output_current (keys, values, array_current) =
     (if output_current < output_end
      then load_empty_run array output_end (output_current + 1)
             (keys[output_current := fst (array ! array_current)],
              values[output_current := snd (array ! array_current)],
              array_current + 1)
      else (keys, values, array_current))"
  by pat_completeness auto
termination
  by (relation "measure (\<lambda>(array, output_end, output_current, st). output_end - output_current)") auto

declare load_empty_run.simps [simp del]

function load_empty_pairs ::
  "nat \<Rightarrow> nat list \<Rightarrow> (int \<times> int) list \<Rightarrow> nat \<Rightarrow> nat \<Rightarrow>
   int list \<times> int list \<times> int list \<times> nat \<Rightarrow> int list \<times> int list \<times> int list" where
  "load_empty_pairs B output_sizes array num_segments i (keys, values, ix, array_current) =
     (if i < num_segments then
        (let output_start = (i + 1) * B - output_sizes ! i;
             output_end = output_start + output_sizes ! i + output_sizes ! (i + 1)
         in case load_empty_run array output_end output_start (keys, values, array_current) of
              (keys', values', array_current') \<Rightarrow>
                (let ix' = set_separator_key ix i (keys' ! output_start);
                     ix'' = set_separator_key ix' (i + 1) (keys' ! (output_start + output_sizes ! i))
                 in load_empty_pairs B output_sizes array num_segments (i + 2)
                      (keys', values', ix'', array_current')))
      else (keys, values, ix))"
  by pat_completeness auto
termination
  by (relation "measure (\<lambda>(B, sizes, array, num_segments, i, st). num_segments - i)") auto

declare load_empty_pairs.simps [simp del]

definition load_empty_multi :: "BTreePMACC7 \<Rightarrow> (int \<times> int) list \<Rightarrow> BTreePMACC7 option" where
  "load_empty_multi s array =
     (let array_sz = length array;
          B = m_segment_capacity s;
          target_density = (get_upper_threshold_root (m_density_bounds s)
                            + get_upper_threshold_leaves (m_density_bounds s)) / 2;
          capacity = hyperceil (nat \<lceil>rat_of_nat array_sz / target_density\<rceil>);
          num_segments = capacity div B;
          elements_per_segment = array_sz div num_segments;
          odd_segments = array_sz mod num_segments
      in if B = 0 \<or> num_segments = 0 then None else
         case alloc_workspace B (m_pages_per_extent s) (page_size s) num_segments of
           None \<Rightarrow> None
         | Some (output_keys, output_values, sizes0, mk, mv) \<Rightarrow>
             (let output_sizes =
                    fold (\<lambda>i sz. sz[i := elements_per_segment + (if i < odd_segments then 1 else 0)])
                         [0..<num_segments] sizes0
              in case load_empty_pairs B output_sizes array num_segments 0
                        (output_keys, output_values, rebuild num_segments, 0) of
                   (keys, values, ix) \<Rightarrow>
                     Some (s\<lparr> m_index := ix, m_keys := keys, m_values := values,
                              m_segment_sizes := output_sizes,
                              m_memory_keys := mk, m_memory_values := mv,
                              m_cardinality := array_sz, m_capacity := capacity,
                              m_number_segments := num_segments,
                              m_height := floor_log2 num_segments + 1 \<rparr>)))"

text \<open>\<^verbatim>\<open>BTreePMACC7::load_empty\<close>, and \<^verbatim>\<open>BTreePMACC7::load_sorted\<close> for a container
  that is empty: the branch \<^verbatim>\<open>if(empty())\<close> after the test for an empty batch.\<close>

definition load_empty :: "BTreePMACC7 \<Rightarrow> (int \<times> int) list \<Rightarrow> BTreePMACC7 option" where
  "load_empty s array =
     (if rat_of_nat (m_segment_capacity s) * get_upper_threshold_leaves (m_density_bounds s)
            \<ge> rat_of_nat (length array)
      then Some (load_empty_single s array)
      else load_empty_multi s array)"

definition load_sorted_empty :: "BTreePMACC7 \<Rightarrow> (int \<times> int) list \<Rightarrow> BTreePMACC7 option" where
  "load_sorted_empty s array = (if length array = 0 then Some s else load_empty s array)"

subsection \<open>Notions used in the statements\<close>

definition is_power_of_two :: "nat \<Rightarrow> bool" where
  "is_power_of_two n = (\<exists>k. n = 2 ^ k)"

text \<open>The parameters that the constructor must refuse: the segment capacity,
  rounded up to a power of two, is below 32 or above 65535, the number of pages
  per extent is not a power of two, or the segment capacity times the size of a
  key does not divide the page size.\<close>

definition invalid_parameters :: "nat \<Rightarrow> nat \<Rightarrow> nat \<Rightarrow> bool" where
  "invalid_parameters pgsz segment_size pages_per_extent =
     (hyperceil segment_size < 32 \<or> hyperceil segment_size > 65535
      \<or> \<not> is_power_of_two pages_per_extent
      \<or> \<not> (hyperceil segment_size * 8) dvd pgsz)"

text \<open>The keys and the values that segment \<open>i\<close> stores: the cells of its packed run,
  at the right edge of an even segment and at the left edge of an odd one.\<close>

definition segment_start_offset :: "BTreePMACC7 \<Rightarrow> nat \<Rightarrow> nat" where
  "segment_start_offset s i =
     (if i mod 2 = 0 then (i + 1) * m_segment_capacity s - m_segment_sizes s ! i
      else i * m_segment_capacity s)"

definition segment_keys :: "BTreePMACC7 \<Rightarrow> nat \<Rightarrow> int list" where
  "segment_keys s i = take (m_segment_sizes s ! i) (drop (segment_start_offset s i) (m_keys s))"

definition segment_values :: "BTreePMACC7 \<Rightarrow> nat \<Rightarrow> int list" where
  "segment_values s i = take (m_segment_sizes s ! i) (drop (segment_start_offset s i) (m_values s))"

definition stored_keys :: "BTreePMACC7 \<Rightarrow> int list" where
  "stored_keys s = concat (map (segment_keys s) [0..<m_number_segments s])"

definition stored_values :: "BTreePMACC7 \<Rightarrow> int list" where
  "stored_values s = concat (map (segment_values s) [0..<m_number_segments s])"

text \<open>The shape of a state: the arrays have the lengths that \<^verbatim>\<open>alloc_workspace\<close> gives
  them, there is one separator per segment, and no segment holds more than its
  capacity.\<close>

definition pma_shape :: "BTreePMACC7 \<Rightarrow> bool" where
  "pma_shape s =
     (0 < m_segment_capacity s \<and> 0 < m_number_segments s
      \<and> length (m_index s) = m_number_segments s
      \<and> length (m_keys s) = m_number_segments s * m_segment_capacity s
      \<and> length (m_values s) = m_number_segments s * m_segment_capacity s
      \<and> length (m_segment_sizes s) = max 2 (m_number_segments s)
      \<and> list_all (\<lambda>i. m_segment_sizes s ! i \<le> m_segment_capacity s) [0..<m_number_segments s])"


text \<open>Modelled from the spec: density bounds with the constants that Section 3
  gives as examples (0.08 and 0.92 at the leaves, 0.30 and 0.75 at the root) and
  a linear interpolation for the levels in between; the class that computes the
  bounds is not among the sources. They serve as the concrete bounds of the
  examples below.\<close>

definition example_bounds :: DensityBounds where
  "example_bounds =
     \<lparr> thresholds_at = (\<lambda>tree_height node_height.
          if tree_height \<le> 1 then (2 / 25, 23 / 25)
          else (2 / 25 + (3 / 10 - 2 / 25) * (rat_of_nat (node_height - 1) / rat_of_nat (tree_height - 1)),
                23 / 25 - (23 / 25 - 3 / 4) * (rat_of_nat (node_height - 1) / rat_of_nat (tree_height - 1)))),
       get_upper_threshold_leaves = 23 / 25,
       get_upper_threshold_root = 3 / 4 \<rparr>"

text \<open>A container of one segment that holds the pairs (10, 100), (20, 200) and
  (30, 300).\<close>

definition small_pma :: BTreePMACC7 where
  "small_pma =
     \<lparr> m_index = [10],
       m_keys = replicate 29 0 @ [10, 20, 30],
       m_values = replicate 29 0 @ [100, 200, 300],
       m_segment_sizes = [3, 0],
       m_segment_capacity = 32, m_height = 1, m_cardinality = 3, m_capacity = 32,
       m_number_segments = 1, m_pages_per_extent = 1,
       m_memory_keys = None, m_memory_values = None,
       m_density_bounds = example_bounds, m_profiles = [], page_size = 4096 \<rparr>"

text \<open>A container of two segments: the pairs (14, 140), (15, -1) and (16, 160) in
  segment 0 and the keys 17 to 33, each with ten times the key as its value, in
  segment 1.\<close>

definition two_segment_pma :: BTreePMACC7 where
  "two_segment_pma =
     \<lparr> m_index = [14, 17],
       m_keys = replicate 29 0 @ [14, 15, 16] @ [17..33] @ replicate 15 0,
       m_values = replicate 29 0 @ [140, -1, 160] @ map (\<lambda>k. 10 * k) [17..33] @ replicate 15 0,
       m_segment_sizes = [3, 17],
       m_segment_capacity = 32, m_height = 2, m_cardinality = 20, m_capacity = 64,
       m_number_segments = 2, m_pages_per_extent = 1,
       m_memory_keys = None, m_memory_values = None,
       m_density_bounds = example_bounds, m_profiles = [], page_size = 4096 \<rparr>"

text \<open>What the copy phase of a rewired spread leaves alone: everything but the two
  arrays and the bookkeeping of the rewiring facility.\<close>

definition arrays_frame :: "BTreePMACC7 \<Rightarrow> BTreePMACC7 \<Rightarrow> bool" where
  "arrays_frame s s' =
     (m_index s' = m_index s \<and> m_segment_sizes s' = m_segment_sizes s
      \<and> m_segment_capacity s' = m_segment_capacity s \<and> m_height s' = m_height s
      \<and> m_cardinality s' = m_cardinality s \<and> m_capacity s' = m_capacity s
      \<and> m_number_segments s' = m_number_segments s
      \<and> m_pages_per_extent s' = m_pages_per_extent s
      \<and> m_density_bounds s' = m_density_bounds s \<and> m_profiles s' = m_profiles s
      \<and> page_size s' = page_size s)"

definition rewiring_frame :: "SpreadWithRewiring \<Rightarrow> SpreadWithRewiring \<Rightarrow> bool" where
  "rewiring_frame rw rw' =
     (arrays_frame (m_instance rw) (m_instance rw')
      \<and> m_window_start rw' = m_window_start rw \<and> m_window_length rw' = m_window_length rw
      \<and> rw_cardinality rw' = rw_cardinality rw
      \<and> m_segments_per_extent rw' = m_segments_per_extent rw
      \<and> m_insert rw' = m_insert rw \<and> m_insert_key rw' = m_insert_key rw
      \<and> m_insert_value rw' = m_insert_value rw)"

text \<open>The share of part \<open>i\<close> when \<open>N\<close> elements are dealt to \<open>W\<close> parts as evenly
  as possible, the leftmost parts taking the extra elements; and the share of
  segment \<open>i\<close> of a window of \<open>W\<close> segments when the elements are dealt to the
  extents of the window first, \<open>P\<close> segments each, and then to the segments of
  each extent.\<close>

definition even_share :: "nat \<Rightarrow> nat \<Rightarrow> nat \<Rightarrow> nat" where
  "even_share N W i = N div W + (if i < N mod W then 1 else 0)"

definition extent_share :: "nat \<Rightarrow> nat \<Rightarrow> nat \<Rightarrow> nat \<Rightarrow> nat" where
  "extent_share N W P i = even_share (even_share N (W div P) (i div P)) P (i mod P)"

text \<open>The test of \<^verbatim>\<open>spread\<close> that selects the spread with rewiring, and the number
  of segments in an extent that this spread works with.\<close>

definition uses_rewiring :: "BTreePMACC7 \<Rightarrow> nat \<Rightarrow> bool" where
  "uses_rewiring s num_segments =
     (case m_memory_keys s of
        Some mem \<Rightarrow> num_segments * m_segment_capacity s * 8 \<ge> get_extent_size mem
      | None \<Rightarrow> False)"

definition segments_per_extent :: "BTreePMACC7 \<Rightarrow> nat" where
  "segments_per_extent s = m_segments_per_extent (SpreadWithRewiring_init s 0 0 0)"

text \<open>What \<open>update_index\<close> does to the sizes: nothing without an element to insert,
  and one more element in one segment of the window with one.\<close>

definition one_more :: "nat \<Rightarrow> nat \<Rightarrow> nat list \<Rightarrow> nat list \<Rightarrow> bool" where
  "one_more ws n sizes sizes' = (\<exists>j<n. sizes' = sizes[ws + j := sizes ! (ws + j) + 1])"

text \<open>Two containers on rewired memory, with segments of 32 elements and extents
  of 512 bytes, that is of two segments. The first has four segments, which hold
  the keys 1 to 43, each with ten times the key as its value. The second has two
  segments, which hold the even keys from 2 to 90, each with ten times the key as
  its value; its first segment is full.\<close>

definition rewired_memory_512 :: BufferedRewiredMemory where
  "rewired_memory_512 = \<lparr>get_extent_size = 512, get_used_buffers = 0\<rparr>"

definition four_segment_rewired_pma :: BTreePMACC7 where
  "four_segment_rewired_pma =
     \<lparr> m_index = [1, 3, 8, 26],
       m_keys = replicate 30 0 @ [1, 2] @ [3..7] @ replicate 27 0
                @ replicate 14 0 @ [8..25] @ [26..43] @ replicate 14 0,
       m_values = replicate 30 0 @ [10, 20] @ map (\<lambda>k. 10 * k) [3..7] @ replicate 27 0
                @ replicate 14 0 @ map (\<lambda>k. 10 * k) [8..25] @ map (\<lambda>k. 10 * k) [26..43]
                @ replicate 14 0,
       m_segment_sizes = [2, 5, 18, 18],
       m_segment_capacity = 32, m_height = 3, m_cardinality = 43, m_capacity = 128,
       m_number_segments = 4, m_pages_per_extent = 1,
       m_memory_keys = Some rewired_memory_512, m_memory_values = Some rewired_memory_512,
       m_density_bounds = example_bounds, m_profiles = [], page_size = 512 \<rparr>"

definition two_segment_rewired_pma :: BTreePMACC7 where
  "two_segment_rewired_pma =
     \<lparr> m_index = [2, 66],
       m_keys = map (\<lambda>k. 2 * k) [1..32] @ map (\<lambda>k. 2 * k) [33..45] @ replicate 19 0,
       m_values = map (\<lambda>k. 20 * k) [1..32] @ map (\<lambda>k. 20 * k) [33..45] @ replicate 19 0,
       m_segment_sizes = [32, 13],
       m_segment_capacity = 32, m_height = 2, m_cardinality = 45, m_capacity = 64,
       m_number_segments = 2, m_pages_per_extent = 1,
       m_memory_keys = Some rewired_memory_512, m_memory_values = Some rewired_memory_512,
       m_density_bounds = example_bounds, m_profiles = [], page_size = 512 \<rparr>"

text \<open>Inserting the keys of a list one after the other, each with the key as its
  value.\<close>

definition insert_all :: "BTreePMACC7 \<Rightarrow> int list \<Rightarrow> BTreePMACC7 option" where
  "insert_all s ks = fold (\<lambda>k so. case so of None \<Rightarrow> None | Some s \<Rightarrow> insert_pma s k k) ks (Some s)"

section \<open>Properties\<close>

subsection \<open>Construction\<close>

lemma hyperceil_pow2: "\<exists>k. hyperceil n = 2 ^ k"
proof (induction n rule: hyperceil.induct)
  case (1 n)
  show ?case
  proof (cases "n \<le> 1")
    case True
    then have "hyperceil n = 2 ^ 0" by (simp add: hyperceil.simps)
    then show ?thesis by blast
  next
    case False
    with 1 obtain k where "hyperceil ((n + 1) div 2) = 2 ^ k" by auto
    with False have "hyperceil n = 2 ^ Suc k" by (subst hyperceil.simps) simp
    then show ?thesis by blast
  qed
qed

lemma hyperceil_of_pow2: "hyperceil (2 ^ k) = 2 ^ k"
proof (induction k)
  case 0
  show ?case by (simp add: hyperceil.simps)
next
  case (Suc k)
  have "(2 ^ Suc k + 1) div 2 = (2::nat) ^ k" by simp
  moreover have "0 < (2::nat) ^ k" by simp
  then have "\<not> (2::nat) ^ Suc k \<le> 1" by (simp only: power_Suc)
  ultimately show ?case using Suc by (subst hyperceil.simps) simp
qed

lemma hyperceil_fixed_iff: "hyperceil n = n \<longleftrightarrow> (\<exists>k. n = 2 ^ k)"
  using hyperceil_pow2 [of n] hyperceil_of_pow2 by metis

lemma hyperceil_ge: "n \<le> hyperceil n"
proof (induction n rule: hyperceil.induct)
  case (1 n)
  show ?case
  proof (cases "n \<le> 1")
    case True
    then show ?thesis by (simp add: hyperceil.simps)
  next
    case False
    with 1 have "(n + 1) div 2 \<le> hyperceil ((n + 1) div 2)" by simp
    with False show ?thesis by (subst hyperceil.simps) simp
  qed
qed

lemma hyperceil_least: "n \<le> 2 ^ j \<Longrightarrow> hyperceil n \<le> 2 ^ j"
proof (induction n arbitrary: j rule: hyperceil.induct)
  case (1 n)
  show ?case
  proof (cases "n \<le> 1")
    case True
    then show ?thesis by (simp add: hyperceil.simps)
  next
    case False
    with "1.prems" obtain i where j: "j = Suc i" by (cases j) auto
    with "1.prems" have "(n + 1) div 2 \<le> 2 ^ i" by simp
    with 1 False have "hyperceil ((n + 1) div 2) \<le> 2 ^ i" by simp
    with False j show ?thesis by (subst hyperceil.simps) simp
  qed
qed

lemma hyperceil_fixed_iff2: "hyperceil n = n \<longleftrightarrow> is_power_of_two n"
  unfolding is_power_of_two_def by (rule hyperceil_fixed_iff)

lemma size_t_times_eq: "size_t_times a b = (a * b) mod 2 ^ 64"
proof -
  have "(int a * int b) mod 2 ^ 64 = int ((a * b) mod 2 ^ 64)" by (simp add: zmod_int)
  then show ?thesis by (simp only: size_t_times_def nat_int)
qed

lemma size_t_times_small: "a * b < 2 ^ 64 \<Longrightarrow> size_t_times a b = a * b"
  by (simp add: size_t_times_eq)

lemma alloc_workspace_None_iff:
  "alloc_workspace B pages_per_extent pgsz n = None \<longleftrightarrow> size_t_times pages_per_extent pgsz = 0"
  by (simp add: alloc_workspace_def Let_def)

lemma dvd_size_t_times:
  assumes "d dvd b" "d dvd 2 ^ 64"
  shows "d dvd size_t_times a b"
proof -
  from assms(1) have "d dvd a * b" by simp
  then show ?thesis unfolding size_t_times_eq using assms(2) by (rule dvd_mod)
qed

lemma pow2_times_8_dvd:
  assumes "is_power_of_two B" "B \<le> 65535"
  shows "B * 8 dvd 2 ^ 64"
proof -
  from assms(1) obtain k where k: "B = 2 ^ k" by (auto simp: is_power_of_two_def)
  have "k < 16"
  proof (rule ccontr)
    assume "\<not> k < 16"
    then have "(2::nat) ^ 16 \<le> 2 ^ k" by (intro power_increasing) simp_all
    with k assms(2) show False by simp
  qed
  then have "k + 3 \<le> 64" by simp
  then have "(2::nat) ^ (k + 3) dvd 2 ^ 64" by (rule le_imp_power_dvd)
  with k show ?thesis by (simp add: power_add)
qed

text \<open>The workspace of the constructor: one segment, with arrays of the length of
  the segment whether they come from the rewiring facility or not.\<close>

lemma alloc_workspace_one_segment:
  assumes B: "is_power_of_two B" "B \<le> 65535" and dvd: "B * 8 dvd pgsz"
    and nz: "size_t_times pages_per_extent pgsz \<noteq> 0"
  shows "\<exists>mk mv. alloc_workspace B pages_per_extent pgsz 1
            = Some (replicate B 0, replicate B 0, [0, 0], mk, mv)"
proof -
  let ?e = "size_t_times pages_per_extent pgsz"
  have "B * 8 < 2 ^ 64" using B(2) by simp
  then have elts: "size_t_times (size_t_times (Suc 0) B) 8 = B * 8"
    using B(2) by (simp add: size_t_times_eq)
  have sizes: "(replicate (max 2 (1::nat)) (0::nat))[1 := 0] = [0, 0]"
    by (simp add: numeral_2_eq_2)
  show ?thesis
  proof (cases "?e \<le> B * 8")
    case True
    have "B * 8 dvd ?e" using dvd pow2_times_8_dvd [OF B] by (rule dvd_size_t_times)
    then have "B * 8 \<le> ?e" using nz by (intro dvd_imp_le) simp_all
    with True have e: "?e = B * 8" by simp
    have "0 < B" using B(1) by (auto simp: is_power_of_two_def)
    then show ?thesis
      using nz by (simp add: alloc_workspace_def Let_def elts sizes e)
  next
    case False
    then show ?thesis by (simp add: alloc_workspace_def Let_def elts sizes)
  qed
qed

lemma segment_keys_empty: "m_segment_sizes s ! i = 0 \<Longrightarrow> segment_keys s i = []"
  by (simp add: segment_keys_def)

text \<open>What the constructor does, for all parameters. It throws the invalid-argument
  error exactly for the parameters described by \<open>invalid_parameters\<close>. For the
  others it divides by zero when the size of an extent in bytes, the product of
  \<open>pages_per_extent\<close> and the page size in \<^verbatim>\<open>size_t\<close>, is zero, and returns an empty
  container of one segment otherwise, whose capacity is the requested one rounded
  up to a power of two. \<open>hyperceil\<close> does round up to the next power of two
  (\<open>hyperceil_pow2\<close>, \<open>hyperceil_ge\<close>, \<open>hyperceil_least\<close>), and a number is a power
  of two exactly if \<open>hyperceil\<close> leaves it as it is.\<close>

theorem PMA_init_outcome:
  "(case PMA_init db pgsz segment_size pages_per_extent of
      Inl (invalid_argument msg) \<Rightarrow> invalid_parameters pgsz segment_size pages_per_extent
    | Inl division_by_zero \<Rightarrow>
        \<not> invalid_parameters pgsz segment_size pages_per_extent
        \<and> size_t_times pages_per_extent pgsz = 0
    | Inr s \<Rightarrow>
        \<not> invalid_parameters pgsz segment_size pages_per_extent
        \<and> size_t_times pages_per_extent pgsz \<noteq> 0
        \<and> empty_pma s \<and> stored_keys s = [] \<and> pma_shape s
        \<and> m_number_segments s = 1 \<and> m_height s = 1
        \<and> m_segment_capacity s = hyperceil segment_size
        \<and> m_capacity s = hyperceil segment_size)"
proof (cases "invalid_parameters pgsz segment_size pages_per_extent")
  case True
  then show ?thesis
    by (auto simp: PMA_init_def Let_def mod_eq_0_iff_dvd invalid_parameters_def
                   hyperceil_fixed_iff2 [symmetric])
next
  case False
  let ?B = "hyperceil segment_size"
  from False have B: "32 \<le> ?B" "?B \<le> 65535" and ppe: "hyperceil pages_per_extent = pages_per_extent"
    and dvd: "?B * 8 dvd pgsz"
    by (auto simp: invalid_parameters_def hyperceil_fixed_iff2 [symmetric])
  have pow: "is_power_of_two ?B"
    using hyperceil_pow2 [of segment_size] by (simp add: is_power_of_two_def)
  show ?thesis
  proof (cases "size_t_times pages_per_extent pgsz = 0")
    case True
    then have "alloc_workspace ?B pages_per_extent pgsz 1 = None"
      by (simp add: alloc_workspace_None_iff)
    with False B ppe dvd True show ?thesis
      by (simp add: PMA_init_def Let_def mod_eq_0_iff_dvd)
  next
    case nz: False
    from alloc_workspace_one_segment [OF pow B(2) dvd nz]
    obtain mk mv where "alloc_workspace ?B pages_per_extent pgsz 1
        = Some (replicate ?B 0, replicate ?B 0, [0, 0], mk, mv)" by blast
    with False B ppe dvd nz show ?thesis
      by (simp add: PMA_init_def Let_def mod_eq_0_iff_dvd empty_pma_def pma_shape_def
                    stored_keys_def segment_keys_empty)
  qed
qed

text \<open>C9: the constructor does not succeed for all the parameters that the claim
  lets through. With a segment size of 64, a page size of 4096 and \<open>2\<^sup>5\<^sup>2\<close> pages
  per extent the four tests of the constructor pass: 64 is a power of two between
  32 and 65535, \<open>2\<^sup>5\<^sup>2\<close> is a power of two, and \<open>64 * 8\<close> divides 4096. The size of
  an extent, \<open>2\<^sup>5\<^sup>2 * 4096\<close> in \<^verbatim>\<open>size_t\<close>, is zero, \<^verbatim>\<open>alloc_workspace\<close> takes the
  branch of the rewired memory and divides by it: the constructor neither throws
  the invalid-argument error nor returns a container.\<close>

theorem PMA_init_extent_size_zero:
  "hyperceil 64 = 64 \<and> hyperceil (2 ^ 52) = 2 ^ 52 \<and> 4096 mod (hyperceil 64 * 8) = (0::nat)
   \<and> size_t_times (2 ^ 52) 4096 = 0
   \<and> PMA_init example_bounds 4096 64 (2 ^ 52) = Inl division_by_zero"
proof -
  have h64: "hyperceil 64 = 64" using hyperceil_of_pow2 [of 6] by simp
  have h52: "hyperceil (2 ^ 52) = 2 ^ 52" by (rule hyperceil_of_pow2)
  have z: "size_t_times (2 ^ 52) 4096 = 0" by (simp add: size_t_times_def)
  then have "alloc_workspace 64 (2 ^ 52) 4096 1 = None"
    by (simp only: alloc_workspace_None_iff)
  with h64 h52 z show ?thesis by (simp add: PMA_init_def Let_def)
qed

subsection \<open>Aggregate sum over an empty range\<close>

text \<open>C10: with \<open>min > max\<close>, \<^verbatim>\<open>sum\<close> returns the empty result: no elements and zero
  sums. The function is \<^verbatim>\<open>const\<close>: it returns its result only, and the container
  is the one it was called on.\<close>

theorem sum_pma_reversed_bounds:
  "max_key < min_key \<Longrightarrow>
     sum_pma s min_key max_key = Some SumResult_empty
     \<and> m_num_elements SumResult_empty = 0
     \<and> m_sum_keys SumResult_empty = 0 \<and> m_sum_values SumResult_empty = 0"
  by (simp add: sum_pma_def SumResult_empty_def)

theorem sum_pma_reversed_bounds_witness:
  "(10::int) < 20 \<and> sum_pma small_pma 20 10 = Some SumResult_empty
   \<and> m_num_elements SumResult_empty = 0"
  using sum_pma_reversed_bounds [of 10 20 small_pma] by simp

subsection \<open>Removing a key that is not stored\<close>

lemma scan_key_absent:
  "start \<le> stop \<Longrightarrow> \<forall>i. start \<le> i \<and> i < stop \<longrightarrow> keys ! (base + i) \<noteq> key \<Longrightarrow>
     scan_key keys base start stop key = stop"
proof (induction keys base start stop key rule: scan_key.induct)
  case (1 keys base i stop key)
  show ?case
  proof (cases "i < stop")
    case True
    with "1.prems" have "keys ! (base + i) \<noteq> key" by simp
    moreover from True "1.prems" "1.IH" this have "scan_key keys base (i + 1) stop key = stop" by simp
    ultimately show ?thesis using True by (subst scan_key.simps) simp
  next
    case False
    with "1.prems" show ?thesis by (subst scan_key.simps) simp
  qed
qed

lemma even_run_offset:
  fixes i :: nat
  assumes "sz \<le> B" "B - sz \<le> i" "i < B"
  shows "(seg + 1) * B - sz + (i - (B - sz)) = seg * B + i"
proof -
  have "(seg + 1) * B = seg * B + B" by simp
  then show ?thesis using assms by linarith
qed

lemma index_find_less: "0 < length ix \<Longrightarrow> index_find ix key < length ix"
  by (auto simp: index_find_def find_Some_iff split: option.splits)

lemma pma_shape_size_le:
  "pma_shape s \<Longrightarrow> i < m_number_segments s \<Longrightarrow> m_segment_sizes s ! i \<le> m_segment_capacity s"
  by (simp add: pma_shape_def list_all_iff)

lemma segment_keys_subset:
  "i < m_number_segments s \<Longrightarrow> set (segment_keys s i) \<subseteq> set (stored_keys s)"
  by (auto simp: stored_keys_def)

lemma segment_keys_nth:
  assumes "pma_shape s" "i < m_number_segments s" "j < m_segment_sizes s ! i"
  shows "m_keys s ! (segment_start_offset s i + j) \<in> set (segment_keys s i)"
proof -
  let ?B = "m_segment_capacity s" and ?sz = "m_segment_sizes s ! i"
  have sz: "?sz \<le> ?B" using assms pma_shape_size_le by simp
  have "(i + 1) * ?B \<le> m_number_segments s * ?B" using assms(2) by (intro mult_le_mono1) simp
  then have len: "(i + 1) * ?B \<le> length (m_keys s)" using assms(1) by (simp add: pma_shape_def)
  have "segment_start_offset s i + ?sz \<le> (i + 1) * ?B"
    using sz by (simp add: segment_start_offset_def)
  with len have "segment_start_offset s i + ?sz \<le> length (m_keys s)" by simp
  with assms(3) have "segment_keys s i ! j = m_keys s ! (segment_start_offset s i + j)"
    by (simp add: segment_keys_def)
  moreover have "j < length (segment_keys s i)"
    using assms(3) \<open>segment_start_offset s i + ?sz \<le> length (m_keys s)\<close>
    by (simp add: segment_keys_def)
  ultimately show ?thesis by (metis nth_mem)
qed

lemma remove_from_segment_absent:
  assumes "pma_shape s" "key \<notin> set (stored_keys s)"
  shows "remove_from_segment s key =
           (s, index_find (m_index s) key, m_segment_sizes s ! index_find (m_index s) key, -1)"
proof -
  let ?seg = "index_find (m_index s) key"
  let ?B = "m_segment_capacity s" and ?sz = "m_segment_sizes s ! ?seg"
  have seg: "?seg < m_number_segments s"
    using assms(1) index_find_less [of "m_index s" key] by (simp add: pma_shape_def)
  have sz: "?sz \<le> ?B" using assms(1) seg pma_shape_size_le by simp
  have absent: "key \<notin> set (segment_keys s ?seg)"
    using assms(2) segment_keys_subset [OF seg] by blast
  show ?thesis
  proof (cases "?seg mod 2 = 0")
    case True
    have "\<forall>i. ?B - ?sz \<le> i \<and> i < ?B \<longrightarrow> m_keys s ! (?seg * ?B + i) \<noteq> key"
    proof (intro allI impI)
      fix i assume i: "?B - ?sz \<le> i \<and> i < ?B"
      then have "i - (?B - ?sz) < ?sz" using sz by linarith
      from segment_keys_nth [OF assms(1) seg this]
      have "m_keys s ! (segment_start_offset s ?seg + (i - (?B - ?sz))) \<in> set (segment_keys s ?seg)" .
      moreover have "segment_start_offset s ?seg + (i - (?B - ?sz)) = ?seg * ?B + i"
        using True i sz even_run_offset [of ?sz ?B i ?seg] by (simp add: segment_start_offset_def)
      ultimately show "m_keys s ! (?seg * ?B + i) \<noteq> key" using absent by metis
    qed
    then have "scan_key (m_keys s) (?seg * ?B) (?B - ?sz) ?B key = ?B"
      by (intro scan_key_absent) simp_all
    with True show ?thesis by (simp add: remove_from_segment_def Let_def)
  next
    case False
    have "\<forall>i. 0 \<le> i \<and> i < ?sz \<longrightarrow> m_keys s ! (?seg * ?B + i) \<noteq> key"
    proof (intro allI impI)
      fix i assume i: "0 \<le> i \<and> i < ?sz"
      then have "i < ?sz" by simp
      from segment_keys_nth [OF assms(1) seg this]
      have "m_keys s ! (segment_start_offset s ?seg + i) \<in> set (segment_keys s ?seg)" .
      moreover have "segment_start_offset s ?seg + i = ?seg * ?B + i"
        using False by (simp add: segment_start_offset_def)
      ultimately show "m_keys s ! (?seg * ?B + i) \<noteq> key" using absent by metis
    qed
    then have "scan_key (m_keys s) (?seg * ?B) 0 ?sz key = ?sz"
      by (intro scan_key_absent) simp_all
    with False show ?thesis by (simp add: remove_from_segment_def Let_def)
  qed
qed

text \<open>C4: removing a key that the container does not store, from the empty
  container in particular, returns \<open>-1\<close> and the state it was called on: the
  cardinality, the segment sizes, the two arrays and the separators are as
  before.\<close>

theorem remove_pma_absent:
  "empty_pma s \<or> (pma_shape s \<and> key \<notin> set (stored_keys s)) \<Longrightarrow> remove_pma s key = Some (s, -1)"
  by (auto simp: remove_pma_def remove_from_segment_absent)

lemma small_pma_shape: "pma_shape small_pma"
  by (simp add: pma_shape_def small_pma_def)

lemma small_pma_stored_keys: "stored_keys small_pma = [10, 20, 30]"
  by (simp add: stored_keys_def segment_keys_def segment_start_offset_def small_pma_def)

theorem remove_pma_absent_witness:
  "(empty_pma small_pma \<or> (pma_shape small_pma \<and> 15 \<notin> set (stored_keys small_pma)))
   \<and> remove_pma small_pma 15 = Some (small_pma, -1)"
  using remove_pma_absent [of small_pma 15] small_pma_shape small_pma_stored_keys by simp

subsection \<open>What the copy phase of a rewired spread leaves alone\<close>

lemma arrays_frame_refl [simp]: "arrays_frame s s"
  by (simp add: arrays_frame_def)

lemma arrays_frame_trans: "arrays_frame s s' \<Longrightarrow> arrays_frame s' s'' \<Longrightarrow> arrays_frame s s''"
  by (simp add: arrays_frame_def)

lemma rewiring_frame_refl [simp]: "rewiring_frame rw rw"
  by (simp add: rewiring_frame_def)

lemma rewiring_frame_trans:
  "rewiring_frame rw rw' \<Longrightarrow> rewiring_frame rw' rw'' \<Longrightarrow> rewiring_frame rw rw''"
  unfolding rewiring_frame_def using arrays_frame_trans by auto

lemma length_memcpy:
  "d + n \<le> length dst \<Longrightarrow> s + n \<le> length src \<Longrightarrow> length (memcpy dst d src s n) = length dst"
  by (simp add: memcpy_def)

lemma rewiring_frame_queue [simp]:
  "rewiring_frame rw (rw'\<lparr>m_extents_to_rewire := q\<rparr>) = rewiring_frame rw rw'"
  by (simp add: rewiring_frame_def)

lemma rewiring_frame_position [simp]:
  "rewiring_frame rw (rw'\<lparr>m_position := p\<rparr>) = rewiring_frame rw rw'"
  by (simp add: rewiring_frame_def)

lemma acquire_free_space_frame:
  "acquire_free_space rw = (rw', bk, bv) \<Longrightarrow>
     rewiring_frame rw rw' \<and> m_keys (m_instance rw') = m_keys (m_instance rw)
     \<and> m_values (m_instance rw') = m_values (m_instance rw)
     \<and> m_position rw' = m_position rw \<and> m_extents_to_rewire rw' = m_extents_to_rewire rw"
  by (auto simp: acquire_free_space_def Let_def rewiring_frame_def arrays_frame_def)

lemma rewire_frame: "rewiring_frame rw (rewire rw extent_id ks vs)"
  by (simp add: rewire_def Let_def rewiring_frame_def arrays_frame_def)

lemma rewire_position [simp]: "m_position (rewire rw extent_id ks vs) = m_position rw"
  by (simp add: rewire_def Let_def)

lemma reclaim_queue_frame: "rewiring_frame rw (reclaim_queue rw current q)"
proof (induction q arbitrary: rw)
  case Nil
  then show ?case by simp
next
  case (Cons e q)
  obtain extent_id ks vs where e: "e = (extent_id, ks, vs)" by (cases e) auto
  show ?case
    using Cons [of "rewire rw extent_id ks vs"] rewire_frame [of rw extent_id ks vs]
    by (auto simp: e intro: rewiring_frame_trans)
qed

lemma reclaim_queue_position [simp]: "m_position (reclaim_queue rw current q) = m_position rw"
  by (induction rw current q rule: reclaim_queue.induct) auto

lemma reclaim_past_extents_frame: "rewiring_frame rw (reclaim_past_extents rw)"
  by (simp add: reclaim_past_extents_def reclaim_queue_frame)

lemma spread_elements_frame:
  "spread_elements rw to_buffer bk bv extent_id n = Some (rw', bk', bv') \<Longrightarrow>
     rewiring_frame rw rw' \<and> m_extents_to_rewire rw' = m_extents_to_rewire rw
     \<and> m_memory_keys (m_instance rw') = m_memory_keys (m_instance rw)
     \<and> m_memory_values (m_instance rw') = m_memory_values (m_instance rw)"
  by (auto simp: spread_elements_def Let_def rewiring_frame_def arrays_frame_def
           split: option.splits prod.splits)

lemma spread_extent_frame:
  assumes "spread_extent rw extent_id n = Some rw'"
  shows "rewiring_frame rw rw'"
proof (cases "get_current_extent rw \<ge> extent_id")
  case False
  with assms obtain rw1 b1 b2
    where 1: "spread_elements rw False [] [] extent_id n = Some (rw1, b1, b2)"
      and 2: "rw' = reclaim_past_extents rw1"
    by (auto simp: spread_extent_def Let_def split: option.splits)
  from 1 have "rewiring_frame rw rw1" by (simp add: spread_elements_frame)
  moreover from 2 have "rewiring_frame rw1 rw'" by (simp add: reclaim_past_extents_frame)
  ultimately show ?thesis by (rule rewiring_frame_trans)
next
  case True
  obtain rw1 bk bv where 0: "acquire_free_space rw = (rw1, bk, bv)"
    by (cases "acquire_free_space rw") auto
  with True assms obtain rw2 bk' bv'
    where 1: "spread_elements rw1 True bk bv extent_id n = Some (rw2, bk', bv')"
      and 2: "rw' = reclaim_past_extents
                      (rw2\<lparr>m_extents_to_rewire := m_extents_to_rewire rw2 @ [(extent_id, bk', bv')]\<rparr>)"
    by (auto simp: spread_extent_def Let_def split: option.splits)
  from 0 have "rewiring_frame rw rw1" by (simp add: acquire_free_space_frame)
  moreover from 1 have "rewiring_frame rw1 rw2" by (simp add: spread_elements_frame)
  moreover from 2 have "rewiring_frame rw2 rw'"
    using reclaim_past_extents_frame
            [of "rw2\<lparr>m_extents_to_rewire := m_extents_to_rewire rw2 @ [(extent_id, bk', bv')]\<rparr>"]
    by (simp add: rewiring_frame_def)
  ultimately show ?thesis by (blast intro: rewiring_frame_trans)
qed

lemma spread_window_loop_frame:
  "spread_window_loop rw epe od i = Some rw' \<Longrightarrow> rewiring_frame rw rw'"
proof (induction "nat (i + 1)" arbitrary: i rw)
  case 0
  then show ?case by (subst (asm) spread_window_loop.simps) simp
next
  case (Suc n)
  from Suc.hyps(2) have i: "i \<ge> 0" "n = nat (i - 1 + 1)" by simp_all
  from Suc.prems show ?case
    apply (subst (asm) spread_window_loop.simps)
    apply (simp add: i split: option.splits)
    apply (blast dest: Suc.hyps(1) [rotated] spread_extent_frame intro: rewiring_frame_trans i(2))
    done
qed

lemma spread_window_frame: "spread_window rw = Some rw' \<Longrightarrow> rewiring_frame rw rw'"
  by (auto simp: spread_window_def Let_def split: if_splits dest: spread_window_loop_frame)

subsection \<open>The profile of a rebalance\<close>

lemma storage_insert_unsafe_profiles:
  "storage_insert_unsafe s segment_id key value = (s', b) \<Longrightarrow> m_profiles s' = m_profiles s"
  by (auto simp: storage_insert_unsafe_def Let_def split: prod.splits if_splits)

lemma spread_two_copies_profiles:
  "spread_two_copies s cardinality segment_start num_segments ins = Some s' \<Longrightarrow>
     m_profiles s' = m_profiles s"
  by (auto simp: spread_two_copies_def Let_def split: prod.splits option.splits if_splits)

lemma resize_general_segments_profiles:
  "resize_general_segments ns eps od S ik iv isz j st = Some (s', kv') \<Longrightarrow>
     m_profiles s' = m_profiles (fst st)"
proof (induction "ns - j" arbitrary: j st)
  case 0
  then show ?case
    by (cases st) (auto simp: resize_general_segments.simps)
next
  case (Suc n)
  obtain s new_kv input input_size isid iodd oodd
    where st: "st = (s, new_kv, input, input_size, isid, iodd, oodd)" by (cases st) auto
  from Suc.hyps(2) have j: "j < ns" "n = ns - Suc j" by simp_all
  from Suc.prems show ?case
    unfolding st
    apply (subst (asm) resize_general_segments.simps)
    apply (simp add: j Let_def split: option.splits prod.splits if_splits)
    apply (auto dest!: Suc.hyps(1) [rotated] storage_insert_unsafe_profiles simp: j)
    done
qed

lemma rw_insert_profiles [simp]:
  "m_profiles (m_instance (rw_insert rw segment_id)) = m_profiles (m_instance rw)"
  by (cases "storage_insert_unsafe (m_instance rw) segment_id (m_insert_key rw) (m_insert_value rw)")
     (simp add: rw_insert_def storage_insert_unsafe_profiles)

lemma update_index_step_profiles [simp]:
  "m_profiles (m_instance (update_index_step i rw)) = m_profiles (m_instance rw)"
  by (simp add: update_index_step_def Let_def split: prod.splits)

lemma fold_update_index_step_profiles [simp]:
  "m_profiles (m_instance (fold update_index_step xs rw)) = m_profiles (m_instance rw)"
  by (induction xs arbitrary: rw) simp_all

lemma update_index_profiles [simp]:
  "m_profiles (m_instance (update_index rw)) = m_profiles (m_instance rw)"
  by (simp add: update_index_def Let_def)

lemma update_segment_sizes_profiles [simp]:
  "m_profiles (m_instance (update_segment_sizes rw)) = m_profiles (m_instance rw)"
  by (simp add: update_segment_sizes_def)

lemma execute_profiles:
  "execute rw = Some rw' \<Longrightarrow> m_profiles (m_instance rw') = m_profiles (m_instance rw)"
  by (auto simp: execute_def rewiring_frame_def arrays_frame_def
           split: option.splits dest!: spread_window_frame)

lemma spread_profiles:
  "spread s cardinality segment_start num_segments ins = Some s' \<Longrightarrow> m_profiles s' = m_profiles s"
  by (auto simp: spread_def Let_def SpreadWithRewiring_init_def set_element_to_insert_def
           split: option.splits if_splits prod.splits
           dest!: execute_profiles spread_two_copies_profiles)

lemma resize_general_profiles:
  "resize_general s kv = Some s' \<Longrightarrow> m_profiles s' = m_profiles s"
  by (auto simp: resize_general_def Let_def
           split: option.splits if_splits prod.splits
           dest!: resize_general_segments_profiles storage_insert_unsafe_profiles)

lemma rebalance_profiles:
  "rebalance s segment_id kv = Some s' \<Longrightarrow> m_profiles s' = m_profiles s @ [kv \<noteq> None]"
  by (auto simp: rebalance_def Let_def
           split: option.splits if_splits prod.splits
           dest!: spread_profiles resize_general_profiles)

lemma remove_from_segment_frame:
  "remove_from_segment s key = (s1, segment_id, sz, value) \<Longrightarrow>
     m_profiles s1 = m_profiles s \<and> m_number_segments s1 = m_number_segments s
     \<and> m_segment_capacity s1 = m_segment_capacity s \<and> m_density_bounds s1 = m_density_bounds s
     \<and> m_height s1 = m_height s"
  by (auto simp: remove_from_segment_def Let_def split: if_splits)

subsection \<open>When a removal rebalances\<close>

text \<open>C6, as the code has it. Let \<open>remove_from_segment\<close>, the part of \<^verbatim>\<open>remove\<close> before
  the comment \<^verbatim>\<open>// shall we rebalance ?\<close>, give the state \<open>s1\<close>, the segment, the
  size \<open>sz\<close> that the segment has now, and the value found (\<open>-1\<close> if the key was
  not found). Segment \<open>segment_id\<close> is rebalanced if the value is not \<open>-1\<close>, there
  is more than one segment, and \<open>sz\<close> is below the larger of 1 and the lower
  threshold of the leaves times the segment capacity, rounded down; the
  rebalance, when it returns, leaves one more profile, of a deletion. Otherwise
  the result is \<open>s1\<close>, and no profile is added.\<close>

theorem remove_pma_rebalances_iff:
  assumes "\<not> empty_pma s" and "remove_from_segment s key = (s1, segment_id, sz, value)"
  shows "if value \<noteq> -1 \<and> 1 < m_number_segments s
            \<and> sz < max (nat \<lfloor>fst (thresholds s 1) * rat_of_nat (m_segment_capacity s)\<rfloor>) 1
         then remove_pma s key = map_option (\<lambda>s2. (s2, value)) (rebalance s1 segment_id None)
              \<and> (\<forall>s2. rebalance s1 segment_id None = Some s2 \<longrightarrow> m_profiles s2 = m_profiles s @ [False])
         else remove_pma s key = Some (s1, value) \<and> m_profiles s1 = m_profiles s"
proof -
  from assms(2) have f: "m_profiles s1 = m_profiles s" "m_number_segments s1 = m_number_segments s"
    "m_segment_capacity s1 = m_segment_capacity s" "thresholds s1 1 = thresholds s 1"
    using remove_from_segment_frame [OF assms(2)] by (simp_all add: thresholds_def)
  show ?thesis
    using assms f by (auto simp: remove_pma_def Let_def dest!: rebalance_profiles)
qed

theorem remove_pma_rebalances_iff_witness:
  "\<not> empty_pma two_segment_pma
   \<and> (case remove_from_segment two_segment_pma 14 of (s1, segment_id, sz, value) \<Rightarrow>
        remove_pma two_segment_pma 14 = Some (s1, value) \<and> m_profiles s1 = m_profiles two_segment_pma)"
proof -
  obtain s1 segment_id sz v where r: "remove_from_segment two_segment_pma 14 = (s1, segment_id, sz, v)"
    by (cases "remove_from_segment two_segment_pma 14") auto
  have e: "\<not> empty_pma two_segment_pma" by (simp add: empty_pma_def two_segment_pma_def)
  have "fst (snd (snd (remove_from_segment two_segment_pma 14))) = 2" by code_simp
  then have "sz = 2" using r by simp
  moreover have "max (nat \<lfloor>fst (thresholds two_segment_pma 1)
                         * rat_of_nat (m_segment_capacity two_segment_pma)\<rfloor>) 1 = 2"
    by code_simp
  ultimately show ?thesis using remove_pma_rebalances_iff [OF e r] e r by simp
qed

text \<open>The claim as the spec states it fails twice on the container
  \<open>two_segment_pma\<close>, whose lower threshold at the leaves is 0.08 and whose segment
  capacity is 32, so that the product is 2.56. Removing key 14 leaves two elements
  in segment 0, which is less than 2.56 rounded up, and no rebalance takes place.
  Removing key 15 next, which is stored with the value \<open>-1\<close>, leaves one element,
  which is less than 2.56 rounded down as well, and again no rebalance takes
  place.\<close>

theorem remove_pma_rebalance_counterexample:
  "(case remove_pma two_segment_pma 14 of
      None \<Rightarrow> False
    | Some (s1, v1) \<Rightarrow>
        v1 = 140 \<and> stored_keys s1 = [15, 16] @ [17..33]
        \<and> 1 < m_number_segments s1
        \<and> int (m_segment_sizes s1 ! 0)
            < max \<lceil>fst (thresholds s1 1) * rat_of_nat (m_segment_capacity s1)\<rceil> 1
        \<and> m_profiles s1 = m_profiles two_segment_pma
        \<and> (case remove_pma s1 15 of
              None \<Rightarrow> False
            | Some (s2, v2) \<Rightarrow>
                v2 = -1 \<and> stored_keys s2 = 16 # [17..33]
                \<and> 1 < m_number_segments s2
                \<and> m_segment_sizes s2 ! 0
                    < max (nat \<lfloor>fst (thresholds s2 1) * rat_of_nat (m_segment_capacity s2)\<rfloor>) 1
                \<and> m_profiles s2 = m_profiles two_segment_pma))"
  by code_simp

subsection \<open>The sizes of the segments after a spread\<close>

lemma fold_update_length [simp]:
  "length (fold (\<lambda>j ys. ys[ws + j := f j]) js xs) = length xs"
  by (induction js arbitrary: xs) simp_all

lemma fold_update_nth:
  "ws + n \<le> length xs \<Longrightarrow>
     fold (\<lambda>j ys. ys[ws + j := f j]) [0..<n] xs ! k =
       (if ws \<le> k \<and> k < ws + n then f (k - ws) else xs ! k)"
proof (induction n)
  case 0
  then show ?case by auto
next
  case (Suc n)
  then show ?case by (auto simp: nth_list_update less_Suc_eq)
qed

lemma stc_set_sizes_nth:
  "ws + W \<le> length sizes \<Longrightarrow> i < W \<Longrightarrow> stc_set_sizes ws W N sizes ! (ws + i) = even_share N W i"
  by (simp add: stc_set_sizes_def Let_def fold_update_nth even_share_def)

lemma spread_two_copies_sizes:
  "spread_two_copies s N ws W ins = Some s' \<Longrightarrow>
     m_segment_sizes s' = stc_set_sizes ws W N (m_segment_sizes s)"
  by (auto simp: spread_two_copies_def Let_def split: prod.splits option.splits if_splits)

lemma update_segment_sizes_extent_nth:
  "first + n \<le> length sizes \<Longrightarrow>
     update_segment_sizes_extent first n eps od sizes ! k =
       (if first \<le> k \<and> k < first + n then eps + (if k - first < od then 1 else 0) else sizes ! k)"
  by (simp add: update_segment_sizes_extent_def fold_update_nth)

lemma update_segment_sizes_extent_length [simp]:
  "length (update_segment_sizes_extent first n eps od sizes) = length sizes"
  by (simp add: update_segment_sizes_extent_def)

lemma fold_extents_length [simp]:
  "length (fold (\<lambda>i sz. update_segment_sizes_extent (ws + i * P) P (g i) (h i) sz) is sizes) = length sizes"
  by (induction "is" arbitrary: sizes) simp_all

lemma fold_extents_nth:
  assumes "0 < P" "ws + E * P \<le> length sizes"
  shows "fold (\<lambda>i sz. update_segment_sizes_extent (ws + i * P) P (g i) (h i) sz) [0..<E] sizes ! k =
           (if ws \<le> k \<and> k < ws + E * P
            then g ((k - ws) div P) + (if (k - ws) mod P < h ((k - ws) div P) then 1 else 0)
            else sizes ! k)"
  using assms(2)
proof (induction E)
  case 0
  then show ?case by simp
next
  case (Suc E)
  let ?f = "fold (\<lambda>i sz. update_segment_sizes_extent (ws + i * P) P (g i) (h i) sz) [0..<E] sizes"
  from Suc.prems have le: "ws + E * P + P \<le> length ?f" by (simp add: add.commute add.left_commute)
  have IH: "?f ! k = (if ws \<le> k \<and> k < ws + E * P
            then g ((k - ws) div P) + (if (k - ws) mod P < h ((k - ws) div P) then 1 else 0)
            else sizes ! k)"
    using Suc by simp
  show ?case
  proof (cases "ws + E * P \<le> k \<and> k < ws + E * P + P")
    case True
    define r where "r = k - (ws + E * P)"
    from True have r: "k - ws = E * P + r" "r < P" unfolding r_def by linarith+
    have d: "(k - ws) div P = E" using r assms(1) by simp
    have m: "(k - ws) mod P = k - (ws + E * P)" using r by (simp add: r_def)
    from True show ?thesis
      using update_segment_sizes_extent_nth [OF le, of "g E" "h E" k]
      by (simp add: d m)
  next
    case False
    then show ?thesis
      using update_segment_sizes_extent_nth [OF le, of "g E" "h E" k] IH
      by (auto simp: )
  qed
qed

lemma update_segment_sizes_array_nth:
  assumes "0 < P" "P dvd W" "ws + W \<le> length sizes" "i < W"
  shows "update_segment_sizes_array ws W N P sizes ! (ws + i) = extent_share N W P i"
proof -
  from assms(2) have W: "W div P * P = W" by simp
  show ?thesis
    unfolding update_segment_sizes_array_def Let_def
    using fold_extents_nth [of P ws "W div P" sizes
            "\<lambda>e. (N div (W div P) + (if e < N mod (W div P) then 1 else 0)) div P"
            "\<lambda>e. (N div (W div P) + (if e < N mod (W div P) then 1 else 0)) mod P" "ws + i"]
          assms(1,3,4)
    by (simp add: W extent_share_def even_share_def)
qed

lemma even_share_bounds:
  "0 < P \<Longrightarrow> n div P \<le> even_share n P j \<and> even_share n P j \<le> (n + P - 1) div P"
proof -
  assume P: "0 < P"
  have lower: "n div P \<le> even_share n P j" by (simp add: even_share_def)
  have upper: "even_share n P j \<le> (n + P - 1) div P"
  proof (cases "n mod P = 0")
    case True
    then have "even_share n P j = n div P" by (simp add: even_share_def)
    moreover have "n div P \<le> (n + P - 1) div P" using P by (intro div_le_mono) simp
    ultimately show ?thesis by simp
  next
    case False
    then obtain r where r: "n mod P = Suc r" by (cases "n mod P") auto
    then have "r < P" using P by (metis Suc_lessD mod_less_divisor)
    have "n = n div P * P + Suc r" using r by (metis div_mult_mod_eq)
    then have "n + P - 1 = (n div P + 1) * P + r" by (simp add: algebra_simps)
    moreover have "((n div P + 1) * P + r) div P = (n div P + 1) + r div P"
      using P by (intro div_mult_self3) simp
    moreover have "r div P = 0" using \<open>r < P\<close> by (rule div_less)
    ultimately have "(n + P - 1) div P = n div P + 1" by simp
    then show ?thesis by (simp add: even_share_def)
  qed
  from lower upper show ?thesis ..
qed

lemma ceil_div_mono: "m \<le> n \<Longrightarrow> (m + P - 1) div P \<le> (n + P - 1) div (P::nat)"
  by (intro div_le_mono) simp

lemma ceil_ceil_div:
  assumes "0 < E" "0 < P"
  shows "((N + E - 1) div E + P - 1) div P = (N + E * P - 1) div (E * P :: nat)"
proof -
  have "(N + E - 1 + (P - 1) * E) div E = (P - 1) + (N + E - 1) div E"
    using assms(1) by (intro div_mult_self1) simp
  then have "(N + E - 1) div E + (P - 1) = (N + E - 1 + (P - 1) * E) div E"
    by (simp only: add.commute)
  moreover have "N + E - 1 + (P - 1) * E = N + E * P - 1"
    using assms by (cases P) (simp_all add: algebra_simps)
  ultimately have "((N + E - 1) div E + P - 1) div P = ((N + E * P - 1) div E) div P"
    using assms(2) by simp
  then show ?thesis by (simp add: div_mult2_eq)
qed

text \<open>Dealt to the extents first and to their segments next, every segment still
  gets the quotient of \<open>N\<close> by \<open>W\<close>, rounded down or up.\<close>

lemma extent_share_bounds:
  assumes "0 < P" "P dvd W" "0 < W"
  shows "N div W \<le> extent_share N W P i \<and> extent_share N W P i \<le> (N + W - 1) div W"
proof -
  define E where "E = W div P"
  from assms have W: "W = E * P" and E: "0 < E" by (auto simp: E_def)
  let ?n = "even_share N E (i div P)"
  from even_share_bounds [OF E, of N "i div P"]
  have n: "N div E \<le> ?n" "?n \<le> (N + E - 1) div E" by simp_all
  from even_share_bounds [OF assms(1), of ?n "i mod P"]
  have s: "?n div P \<le> even_share ?n P (i mod P)" "even_share ?n P (i mod P) \<le> (?n + P - 1) div P"
    by simp_all
  have "N div W = (N div E) div P" by (simp add: W div_mult2_eq)
  also have "\<dots> \<le> ?n div P" using n(1) by (rule div_le_mono)
  finally have lower: "N div W \<le> extent_share N W P i"
    using s(1) by (simp add: extent_share_def E_def)
  have "(?n + P - 1) div P \<le> ((N + E - 1) div E + P - 1) div P"
    using n(2) by (rule ceil_div_mono)
  also have "\<dots> = (N + W - 1) div W" using ceil_ceil_div [OF E assms(1)] by (simp add: W)
  finally have upper: "extent_share N W P i \<le> (N + W - 1) div W"
    using s(2) by (simp add: extent_share_def E_def)
  from lower upper show ?thesis ..
qed

lemma storage_insert_unsafe_sizes:
  "m_segment_sizes (fst (storage_insert_unsafe s j k v)) = (m_segment_sizes s)[j := m_segment_sizes s ! j + 1]"
  by (simp add: storage_insert_unsafe_def Let_def split: prod.splits)

lemma rw_insert_fields [simp]:
  "m_segment_sizes (m_instance (rw_insert rw j))
     = (m_segment_sizes (m_instance rw))[j := m_segment_sizes (m_instance rw) ! j + 1]"
  "m_insert (rw_insert rw j) = False"
  "m_window_start (rw_insert rw j) = m_window_start rw"
  "m_window_length (rw_insert rw j) = m_window_length rw"
  by (simp_all add: rw_insert_def storage_insert_unsafe_sizes)

lemma one_more_mono: "one_more ws n sizes sizes' \<Longrightarrow> n \<le> m \<Longrightarrow> one_more ws m sizes sizes'"
  unfolding one_more_def by (auto intro: less_le_trans)

lemma update_index_step_sizes:
  assumes "rw' = update_index_step i rw"
  shows "m_window_start rw' = m_window_start rw \<and> m_window_length rw' = m_window_length rw
         \<and> ((m_insert rw' = m_insert rw \<and> m_segment_sizes (m_instance rw') = m_segment_sizes (m_instance rw))
            \<or> (m_insert rw \<and> \<not> m_insert rw'
                \<and> one_more (m_window_start rw) (Suc i) (m_segment_sizes (m_instance rw))
                     (m_segment_sizes (m_instance rw'))))"
proof (cases "m_insert rw \<and> m_insert_key rw < get_minimum (m_instance rw) (m_window_start rw + i)")
  case False
  then show ?thesis using assms by (auto simp: update_index_step_def Let_def)
next
  case True
  show ?thesis
  proof (cases "i > 0")
    case True
    then obtain i' where i': "i = Suc i'" by (cases i) auto
    with \<open>m_insert rw \<and> _\<close> assms show ?thesis
      unfolding one_more_def
      by (auto simp: update_index_step_def Let_def intro!: exI [of _ i'])
  next
    case False
    with \<open>m_insert rw \<and> _\<close> assms show ?thesis
      unfolding one_more_def
      by (auto simp: update_index_step_def Let_def intro!: exI [of _ 0])
  qed
qed

lemma fold_update_index_step_sizes:
  "m_window_start (fold update_index_step [0..<n] rw) = m_window_start rw
   \<and> m_window_length (fold update_index_step [0..<n] rw) = m_window_length rw
   \<and> ((m_insert (fold update_index_step [0..<n] rw) = m_insert rw
        \<and> m_segment_sizes (m_instance (fold update_index_step [0..<n] rw)) = m_segment_sizes (m_instance rw))
       \<or> (m_insert rw \<and> \<not> m_insert (fold update_index_step [0..<n] rw)
           \<and> one_more (m_window_start rw) n (m_segment_sizes (m_instance rw))
                (m_segment_sizes (m_instance (fold update_index_step [0..<n] rw)))))"
proof (induction n)
  case 0
  show ?case by simp
next
  case (Suc n)
  let ?r = "fold update_index_step [0..<n] rw"
  have step: "fold update_index_step [0..<Suc n] rw = update_index_step n ?r" by simp
  from update_index_step_sizes [OF refl, of n ?r] Suc
  show ?case
    unfolding step
    by (auto dest: one_more_mono [where m = "Suc n"])
qed

lemma update_index_sizes:
  assumes "0 < m_window_length rw"
  shows "if m_insert rw
         then one_more (m_window_start rw) (m_window_length rw) (m_segment_sizes (m_instance rw))
                (m_segment_sizes (m_instance (update_index rw)))
         else m_segment_sizes (m_instance (update_index rw)) = m_segment_sizes (m_instance rw)"
proof -
  let ?W = "m_window_length rw"
  let ?r = "fold update_index_step [0..<?W] rw"
  from assms obtain w where w: "?W = Suc w" by (cases ?W) auto
  have last: "one_more (m_window_start rw) ?W (m_segment_sizes (m_instance rw))
                ((m_segment_sizes (m_instance rw))[m_window_start rw + ?W - 1 :=
                    m_segment_sizes (m_instance rw) ! (m_window_start rw + ?W - 1) + 1])"
    unfolding one_more_def using w by (intro exI [of _ w]) simp
  from fold_update_index_step_sizes [of ?W rw] last show ?thesis
    by (auto simp: update_index_def Let_def)
qed

lemma update_segment_sizes_array_length [simp]:
  "length (update_segment_sizes_array ws W N P sizes) = length sizes"
  by (simp add: update_segment_sizes_array_def Let_def)

lemma execute_sizes:
  assumes ex: "execute rw = Some rw'"
    and P: "m_segments_per_extent rw dvd m_window_length rw"
    and len: "m_window_start rw + m_window_length rw \<le> length (m_segment_sizes (m_instance rw))"
  shows "\<exists>j<m_window_length rw. \<forall>i<m_window_length rw.
           m_segment_sizes (m_instance rw') ! (m_window_start rw + i)
             = extent_share (rw_cardinality rw) (m_window_length rw) (m_segments_per_extent rw) i
               + (if m_insert rw \<and> i = j then 1 else 0)"
proof -
  let ?ws = "m_window_start rw" and ?W = "m_window_length rw" and ?P = "m_segments_per_extent rw"
  let ?N = "rw_cardinality rw"
  from ex obtain rw1 where sw: "spread_window rw = Some rw1"
    and rw': "rw' = update_index (update_segment_sizes rw1)"
    by (auto simp: execute_def split: option.splits)
  from sw have P0: "0 < ?P" and E0: "0 < ?W div ?P"
    by (auto simp: spread_window_def split: if_splits)
  then have W0: "0 < ?W" by (metis div_0 less_not_refl2 not_gr_zero)
  from spread_window_frame [OF sw]
  have f: "m_segment_sizes (m_instance rw1) = m_segment_sizes (m_instance rw)"
    "m_window_start rw1 = ?ws" "m_window_length rw1 = ?W" "rw_cardinality rw1 = ?N"
    "m_segments_per_extent rw1 = ?P" "m_insert rw1 = m_insert rw"
    by (simp_all add: rewiring_frame_def arrays_frame_def)
  let ?rw2 = "update_segment_sizes rw1"
  let ?sizes2 = "update_segment_sizes_array ?ws ?W ?N ?P (m_segment_sizes (m_instance rw))"
  have g: "m_segment_sizes (m_instance ?rw2) = ?sizes2" "m_window_start ?rw2 = ?ws"
    "m_window_length ?rw2 = ?W" "m_insert ?rw2 = m_insert rw"
    by (simp_all add: update_segment_sizes_def f)
  have nth2: "?sizes2 ! (?ws + i) = extent_share ?N ?W ?P i" if "i < ?W" for i
    using update_segment_sizes_array_nth [OF P0 P len that] .
  have "0 < m_window_length ?rw2" using W0 by (simp only: g)
  from update_index_sizes [OF this]
  have ui: "if m_insert rw then one_more ?ws ?W ?sizes2 (m_segment_sizes (m_instance rw'))
            else m_segment_sizes (m_instance rw') = ?sizes2"
    unfolding g rw' .
  show ?thesis
  proof (cases "m_insert rw")
    case False
    with ui nth2 W0 show ?thesis by (intro exI [of _ 0]) simp
  next
    case True
    with ui obtain j where j: "j < ?W"
      and s': "m_segment_sizes (m_instance rw') = ?sizes2[?ws + j := ?sizes2 ! (?ws + j) + 1]"
      by (auto simp: one_more_def)
    have "?ws + j < length ?sizes2" using j len by simp
    then have "m_segment_sizes (m_instance rw') ! (?ws + i)
                 = extent_share ?N ?W ?P i + (if i = j then 1 else 0)" if "i < ?W" for i
      using that nth2 [OF that] by (simp add: s' nth_list_update)
    with True j show ?thesis by (intro exI [of _ j]) simp
  qed
qed

text \<open>C5, as the code has it. Let \<open>spread\<close> return for a window of \<open>W\<close> segments that
  starts at segment \<open>ws\<close> and holds \<open>N\<close> elements, the element to insert, if there
  is one, counted. The spread without rewiring leaves \<open>N div W\<close> elements in every
  segment and one more in the first \<open>N mod W\<close> segments of the window, as the
  claim says. The spread with rewiring deals the elements that are in the window
  already, \<open>N\<close> or \<open>N - 1\<close> of them, to the extents of the window first and to the
  \<open>P\<close> segments of each extent next, the first extents and the first segments of
  an extent taking what is left over: every segment gets the quotient of that
  number by \<open>W\<close>, rounded down or up. The element to insert then goes into one
  segment of the window, which holds one element more.\<close>

theorem spread_segment_sizes:
  assumes "spread s N ws W ins = Some s'"
    and "ws + W \<le> length (m_segment_sizes s)"
    and "uses_rewiring s W \<Longrightarrow> segments_per_extent s dvd W"
  shows "if uses_rewiring s W
         then (\<exists>j<W. \<forall>i<W.
                 m_segment_sizes s' ! (ws + i)
                   = extent_share (N - (if ins = None then 0 else 1)) W (segments_per_extent s) i
                     + (if ins \<noteq> None \<and> i = j then 1 else 0)
                 \<and> (N - (if ins = None then 0 else 1)) div W
                     \<le> extent_share (N - (if ins = None then 0 else 1)) W (segments_per_extent s) i
                 \<and> extent_share (N - (if ins = None then 0 else 1)) W (segments_per_extent s) i
                     \<le> (N - (if ins = None then 0 else 1) + W - 1) div W)
         else (\<forall>i<W. m_segment_sizes s' ! (ws + i) = even_share N W i)"
proof (cases "uses_rewiring s W")
  case False
  with assms(1) have "spread_two_copies s N ws W ins = Some s'"
    by (auto simp: spread_def uses_rewiring_def split: option.splits if_splits)
  then have "m_segment_sizes s' = stc_set_sizes ws W N (m_segment_sizes s)"
    by (rule spread_two_copies_sizes)
  with False assms(2) show ?thesis by (simp add: stc_set_sizes_nth)
next
  case True
  let ?N' = "N - (if ins = None then 0 else 1)"
  let ?P = "segments_per_extent s"
  define rw where "rw = (case ins of
       Some (k, v, segment_id) \<Rightarrow> set_element_to_insert (SpreadWithRewiring_init s ws W ?N') k v
     | None \<Rightarrow> SpreadWithRewiring_init s ws W ?N')"
  have fields: "m_instance rw = s" "m_window_start rw = ws" "m_window_length rw = W"
    "rw_cardinality rw = ?N'" "m_segments_per_extent rw = ?P" "m_insert rw = (ins \<noteq> None)"
    by (auto simp: rw_def SpreadWithRewiring_init_def set_element_to_insert_def Let_def
                   segments_per_extent_def split: option.splits)
  from True assms(1) obtain rw' where ex: "execute rw = Some rw'" and s': "s' = m_instance rw'"
    by (auto simp: spread_def uses_rewiring_def rw_def Let_def split: option.splits if_splits)
  from ex have P0: "0 < ?P" and "0 < W div ?P"
    by (auto simp: execute_def spread_window_def fields split: option.splits if_splits)
  then have W0: "0 < W" by (metis div_0 less_not_refl2 not_gr_zero)
  from execute_sizes [OF ex] assms(2) assms(3) [OF True]
  obtain j where j: "j < W"
    and nth: "\<forall>i<W. m_segment_sizes s' ! (ws + i)
                = extent_share ?N' W ?P i + (if ins \<noteq> None \<and> i = j then 1 else 0)"
    unfolding fields s' by blast
  from extent_share_bounds [OF P0 assms(3) [OF True] W0]
  have b: "\<forall>i. ?N' div W \<le> extent_share ?N' W ?P i \<and> extent_share ?N' W ?P i \<le> (?N' + W - 1) div W"
    by blast
  have "\<exists>j<W. \<forall>i<W.
          m_segment_sizes s' ! (ws + i)
            = extent_share ?N' W ?P i + (if ins \<noteq> None \<and> i = j then 1 else 0)
          \<and> ?N' div W \<le> extent_share ?N' W ?P i
          \<and> extent_share ?N' W ?P i \<le> (?N' + W - 1) div W"
    using j nth b by (intro exI [of _ j]) simp
  with True show ?thesis by (simp only: if_True)
qed

lemma spread_rewired_returns:
  "(case spread four_segment_rewired_pma 43 0 4 None of None \<Rightarrow> False | Some s' \<Rightarrow> True)"
  by code_simp

lemma spread_two_copies_returns:
  "(case spread two_segment_pma 20 0 2 None of None \<Rightarrow> False | Some s' \<Rightarrow> True)"
  by code_simp

theorem spread_segment_sizes_witness:
  "(\<exists>s'. spread four_segment_rewired_pma 43 0 4 None = Some s'
         \<and> uses_rewiring four_segment_rewired_pma 4
         \<and> segments_per_extent four_segment_rewired_pma = 2
         \<and> (\<forall>i<4. m_segment_sizes s' ! i = extent_share 43 4 2 i))
   \<and> (\<exists>s'. spread two_segment_pma 20 0 2 None = Some s'
         \<and> \<not> uses_rewiring two_segment_pma 2
         \<and> (\<forall>i<2. m_segment_sizes s' ! i = even_share 20 2 i))"
proof
  have u: "uses_rewiring four_segment_rewired_pma 4"
    by (simp add: uses_rewiring_def four_segment_rewired_pma_def rewired_memory_512_def)
  have p: "segments_per_extent four_segment_rewired_pma = 2"
    by (simp add: segments_per_extent_def SpreadWithRewiring_init_def four_segment_rewired_pma_def
                  rewired_memory_512_def)
  from spread_rewired_returns obtain s' where s': "spread four_segment_rewired_pma 43 0 4 None = Some s'"
    by (cases "spread four_segment_rewired_pma 43 0 4 None") auto
  have "4 \<le> length (m_segment_sizes four_segment_rewired_pma)"
    by (simp add: four_segment_rewired_pma_def)
  with spread_segment_sizes [OF s'] u p
  have "\<forall>i<4. m_segment_sizes s' ! i = extent_share 43 4 2 i" by auto
  with s' u p
  show "\<exists>s'. spread four_segment_rewired_pma 43 0 4 None = Some s'
         \<and> uses_rewiring four_segment_rewired_pma 4
         \<and> segments_per_extent four_segment_rewired_pma = 2
         \<and> (\<forall>i<4. m_segment_sizes s' ! i = extent_share 43 4 2 i)" by blast
next
  have u: "\<not> uses_rewiring two_segment_pma 2"
    by (simp add: uses_rewiring_def two_segment_pma_def)
  from spread_two_copies_returns obtain s' where s': "spread two_segment_pma 20 0 2 None = Some s'"
    by (cases "spread two_segment_pma 20 0 2 None") auto
  have "2 \<le> length (m_segment_sizes two_segment_pma)" by (simp add: two_segment_pma_def)
  with spread_segment_sizes [OF s'] u
  have "\<forall>i<2. m_segment_sizes s' ! i = even_share 20 2 i" by auto
  with s' u
  show "\<exists>s'. spread two_segment_pma 20 0 2 None = Some s'
         \<and> \<not> uses_rewiring two_segment_pma 2
         \<and> (\<forall>i<2. m_segment_sizes s' ! i = even_share 20 2 i)" by blast
qed

text \<open>The claim as the spec states it fails for the spread with rewiring. Removing
  key 1 from \<open>four_segment_rewired_pma\<close> leaves one element in segment 0 and 42 in
  the container; the rebalance spreads the whole window of four segments, of two
  extents. The claim gives the sizes 11, 11, 10 and 10; the code gives 21
  elements to each extent, and 11 and 10 to the segments of each. Inserting key 3
  into \<open>two_segment_rewired_pma\<close>, whose first segment is full, spreads the window
  of the two segments with the 46 elements, the new one counted. The claim gives
  23 elements to each segment; the code deals the 45 elements that are there, 23
  and 22, and adds the new element to segment 0, which holds 24.\<close>

theorem spread_with_rewiring_counterexample:
  "(case remove_pma four_segment_rewired_pma 1 of
      None \<Rightarrow> False
    | Some (s', v) \<Rightarrow>
        v = 10 \<and> m_profiles s' = [False] \<and> m_number_segments s' = 4 \<and> m_cardinality s' = 42
        \<and> stored_keys s' = [2..43]
        \<and> m_segment_sizes s' = [11, 10, 11, 10]
        \<and> map (even_share 42 4) [0..<4] = [11, 11, 10, 10])
   \<and> (case insert_pma two_segment_rewired_pma 3 30 of
        None \<Rightarrow> False
      | Some s' \<Rightarrow>
          m_profiles s' = [True] \<and> m_number_segments s' = 2 \<and> m_cardinality s' = 46
          \<and> stored_keys s' = 2 # 3 # map (\<lambda>k. 2 * k) [2..45]
          \<and> m_segment_sizes s' = [24, 22]
          \<and> map (even_share 46 2) [0..<2] = [23, 23])"
  by code_simp

subsection \<open>Extents of a single segment\<close>

text \<open>
  A container with segments of 32 elements on a system with pages of 256 bytes, one
  page per extent: the constructor accepts the parameters, and an extent holds
  exactly one segment. (It is the container with segments of 512 elements on
  pages of 4096 bytes, scaled down by 16.) The keys 1 to 68 are inserted in
  ascending order, which doubles the array twice; then key 69 meets a full
  segment, and the rebalance spreads the window of the segments 2 and 3, with
  rewiring. In \<^verbatim>\<open>spread_elements\<close> the loop over the pairs of output segments starts
  at \<^verbatim>\<open>m_segments_per_extent - 2\<close>, which is below zero: nothing is copied. Both
  extents have taken a scratch buffer, and since the position of the input has
  not moved \<^verbatim>\<open>reclaim_past_extents\<close> releases neither. \<^verbatim>\<open>update_segment_sizes\<close>
  still sets the sizes of an even spread, 22 and 22, over elements that have not
  moved, and \<^verbatim>\<open>update_index\<close> inserts the new key.
\<close>

lemma ascending_inserts_evaluated:
  "(case PMA_init example_bounds 256 32 1 of
      Inl e \<Rightarrow> False
    | Inr s0 \<Rightarrow>
        segments_per_extent s0 = 1
        \<and> (case insert_all s0 [1..68] of
             None \<Rightarrow> False
           | Some s \<Rightarrow>
               stored_keys s = [1..68] \<and> stored_values s = [1..68]
               \<and> m_segment_sizes s = [12, 12, 12, 32] \<and> m_number_segments s = 4
               \<and> m_profiles s = [True, True]
               \<and> map_option get_used_buffers (m_memory_keys s) = Some 0
               \<and> map_option get_used_buffers (m_memory_values s) = Some 0
               \<and> (case insert_pma s 69 69 of
                     None \<Rightarrow> False
                   | Some s' \<Rightarrow>
                       stored_keys s' = [1..24] @ replicate 10 0 @ [25..58] @ [69]
                       \<and> \<not> sorted (stored_keys s')
                       \<and> m_segment_sizes s' = [12, 12, 22, 23] \<and> m_number_segments s' = 4
                       \<and> m_cardinality s' = 69
                       \<and> m_profiles s' = [True, True, True]
                       \<and> map_option get_used_buffers (m_memory_keys s') = Some 2
                       \<and> map_option get_used_buffers (m_memory_values s') = Some 2)))"
  by code_simp

text \<open>C1: after the insertion of key 69 the traversal of the segments is not
  sorted any more. The keys 59 to 68 are not reached, and ten cells that no
  element was written to are read as elements of segment 2.\<close>

theorem ascending_inserts_unsorted:
  "\<exists>s0 s s'. PMA_init example_bounds 256 32 1 = Inr s0
     \<and> insert_all s0 [1..68] = Some s \<and> insert_pma s 69 69 = Some s'
     \<and> stored_keys s = [1..68]
     \<and> stored_keys s' = [1..24] @ replicate 10 0 @ [25..58] @ [69]
     \<and> \<not> sorted (stored_keys s')"
  using ascending_inserts_evaluated
  by (auto split: sum.splits option.splits)

text \<open>C8: the rebalance that the insertion of key 69 starts is a spread with
  rewiring (it leaves a profile, and the number of segments is as before). No
  scratch buffer is in use before it; it returns with two buffers of the keys and
  two of the values still in use.\<close>

theorem rewired_spread_keeps_buffers:
  "\<exists>s0 s s'. PMA_init example_bounds 256 32 1 = Inr s0
     \<and> insert_all s0 [1..68] = Some s \<and> insert_pma s 69 69 = Some s'
     \<and> segments_per_extent s0 = 1
     \<and> map_option get_used_buffers (m_memory_keys s) = Some 0
     \<and> map_option get_used_buffers (m_memory_values s) = Some 0
     \<and> m_profiles s' = m_profiles s @ [True]
     \<and> m_number_segments s' = m_number_segments s
     \<and> map_option get_used_buffers (m_memory_keys s') = Some 2
     \<and> map_option get_used_buffers (m_memory_values s') = Some 2"
  using ascending_inserts_evaluated
  by (auto split: sum.splits option.splits)

end
